theory Spec2Isabelle
  imports Main "HOL-Library.Sublist" "HOL-Library.AList"
begin

section \<open>Python strings\<close>

text \<open>
  A Python \<open>str\<close> is modelled as a \<open>string\<close>, one \<open>char\<close> per code point; the model
  therefore covers the code points 0 to 255.  Where a fixed message of the program holds
  a code point above 255, the characters concerned are a parameter of the function that
  builds the message.  \<open>pat in s\<close> is \<^const>\<open>sublist\<close> of \<open>HOL-Library.Sublist\<close>, \<open>len\<close> is
  \<^const>\<open>length\<close>, slicing \<open>s[i:]\<close> is \<^const>\<open>drop\<close>.
\<close>

text \<open>
  The exceptions that the modelled code raises, each with its message or the name it is
  about.  \<open>Unmodelled\<close> is no exception of Python: it marks a construct of a library
  function that the model of that function does not cover.
\<close>

datatype py_exception =
    NameError string
  | AttributeError string
  | TypeError string
  | ValueError string
  | KeyError string
  | OverflowError string
  | JSONDecodeError
  | Unmodelled string

abbreviation ord :: "char \<Rightarrow> nat" where
  "ord \<equiv> of_char"

abbreviation chr :: "nat \<Rightarrow> char" where
  "chr \<equiv> char_of"

abbreviation newline :: char where
  "newline \<equiv> CHR 0x0A"

abbreviation tab :: char where
  "tab \<equiv> CHR 0x09"

abbreviation dquote :: char where
  "dquote \<equiv> CHR 0x22"

text \<open>
  \<open>str.isspace\<close> on one code point below 256, which is also what \<open>\s\<close> matches in a
  \<open>str\<close> pattern of \<open>re\<close>: TAB, LF, VT, FF, CR, the separators 0x1C to 0x1F, SPACE, NEL
  (0x85) and NBSP (0xA0).
\<close>

definition is_space :: "char \<Rightarrow> bool" where
  "is_space c = (ord c \<in> {9, 10, 11, 12, 13, 28, 29, 30, 31, 32, 133, 160})"

text \<open>\<open>str.lstrip()\<close>, \<open>str.rstrip()\<close> and \<open>str.strip()\<close> without argument.\<close>

definition lstrip :: "string \<Rightarrow> string" where
  "lstrip s = dropWhile is_space s"

definition rstrip :: "string \<Rightarrow> string" where
  "rstrip s = rev (dropWhile is_space (rev s))"

definition strip :: "string \<Rightarrow> string" where
  "strip s = rstrip (lstrip s)"

text \<open>
  \<open>s.replace(old, new)\<close> where \<open>old\<close> is a single character, which is the only way the
  program calls it: every occurrence of the character is replaced, left to right.
\<close>

definition replace :: "char \<Rightarrow> string \<Rightarrow> string \<Rightarrow> string" where
  "replace old new s = concat (map (\<lambda>c. if c = old then new else [c]) s)"

text \<open>
  \<open>split_first pat s\<close> cuts \<open>s\<close> at the leftmost occurrence of \<open>pat\<close>: the text before
  it and the text after it.  It underlies \<open>s.find(pat)\<close> (the length of the first
  component, or -1), \<open>s.split(pat)[0]\<close> and the leftmost match of a literal in
  \<open>re.search\<close>.
\<close>

fun split_first :: "string \<Rightarrow> string \<Rightarrow> (string \<times> string) option" where
  "split_first pat [] = (if pat = [] then Some ([], []) else None)"
| "split_first pat (c # cs) =
     (if prefix pat (c # cs) then Some ([], drop (length pat) (c # cs))
      else (case split_first pat cs of
              None \<Rightarrow> None
            | Some (pre, post) \<Rightarrow> Some (c # pre, post)))"

text \<open>\<open>s.split(sep)\<close> for a single-character separator: always at least one piece.\<close>

fun split_on :: "char \<Rightarrow> string \<Rightarrow> string list" where
  "split_on sep [] = [[]]"
| "split_on sep (c # cs) =
     (if c = sep then [] # split_on sep cs
      else (case split_on sep cs of
              [] \<Rightarrow> [[c]]
            | p # ps \<Rightarrow> (c # p) # ps))"

text \<open>\<open>' '.join(parts)\<close>.\<close>

fun join_space :: "string list \<Rightarrow> string" where
  "join_space [] = []"
| "join_space [p] = p"
| "join_space (p # q # ps) = p @ '' '' @ join_space (q # ps)"

text \<open>The decimal text of a non-negative integer, as an f-string prints \<open>{i}\<close>.\<close>

fun digit_char :: "nat \<Rightarrow> char" where
  "digit_char n = chr (ord CHR ''0'' + n)"

function str_nat :: "nat \<Rightarrow> string" where
  "str_nat n = (if n < 10 then [digit_char n] else str_nat (n div 10) @ [digit_char (n mod 10)])"
  by pat_completeness auto
termination
  by (relation "measure id") auto

declare str_nat.simps [simp del]

section \<open>utils.py: reverse_alphabet\<close>

text \<open>
  The body of the loop of \<open>reverse_alphabet\<close>: the three branches on one character, with
  the comparisons \<open>'a' <= char <= 'z'\<close> taken on code points as Python does.
\<close>

definition reverse_char :: "char \<Rightarrow> char" where
  "reverse_char c =
     (if ord CHR ''a'' \<le> ord c \<and> ord c \<le> ord CHR ''z''
        then chr (ord CHR ''a'' + (ord CHR ''z'' - ord c))
      else if ord CHR ''A'' \<le> ord c \<and> ord c \<le> ord CHR ''Z''
        then chr (ord CHR ''A'' + (ord CHR ''Z'' - ord c))
      else c)"

fun reverse_alphabet :: "string \<Rightarrow> string" where
  "reverse_alphabet [] = []"
| "reverse_alphabet (c # cs) = reverse_char c # reverse_alphabet cs"

text \<open>
  \<open>handle_chatbot_logic\<close> (New_Main.py): the text that replaces the status message, given
  what \<open>generate_gemini_response\<close> returned (\<open>None\<close> when the model is not initialised).
\<close>

definition handle_chatbot_logic :: "string option \<Rightarrow> string" where
  "handle_chatbot_logic response_text =
     (case response_text of
        None \<Rightarrow> ''Sorry, there was an error communicating with the AI. ''
      | Some r \<Rightarrow>
          if sublist ''[API ERROR:'' r
            then ''Sorry, there was an error communicating with the AI. '' @ r
          else if sublist ''[BLOCKED:'' r
            then ''My response was blocked: '' @ r
          else reverse_alphabet r)"

section \<open>New_Main.py: categorization of a journal entry\<close>

text \<open>
  The three error tags that \<open>handle_journal_logic\<close> looks for in a model response, and
  \<open>any(err_tag in response for err_tag in [...])\<close>.
\<close>

definition err_tags :: "string list" where
  "err_tags = [''[BLOCKED:'', ''[API ERROR:'', ''[No text content received]'']"

definition has_err_tag :: "string \<Rightarrow> bool" where
  "has_err_tag r = list_ex (\<lambda>err_tag. sublist err_tag r) err_tags"

text \<open>
  \<open>re.IGNORECASE\<close> against a pattern of ASCII letters: two code points below 256 match
  when they agree after the letters \<open>A\<close> to \<open>Z\<close> are lowered.
\<close>

definition lower_char :: "char \<Rightarrow> char" where
  "lower_char c =
     (if ord CHR ''A'' \<le> ord c \<and> ord c \<le> ord CHR ''Z'' then chr (ord c + 32) else c)"

definition lower :: "string \<Rightarrow> string" where
  "lower s = map lower_char s"

text \<open>
  \<open>re.search(label + r"\s*(.*)", text, re.IGNORECASE)\<close> and its \<open>group(1)\<close>: the leftmost
  occurrence of the label in any case, anywhere in the text; then \<open>\s*\<close> takes all the
  white space that follows, line breaks included; then \<open>(.*)\<close> takes everything up to
  the next line feed.  \<open>None\<close> when the label does not occur.
\<close>

definition search_label :: "string \<Rightarrow> string \<Rightarrow> string option" where
  "search_label label text =
     (case split_first (lower label) (lower text) of
        None \<Rightarrow> None
      | Some (pre, post) \<Rightarrow>
          Some (takeWhile (\<lambda>c. c \<noteq> newline)
                  (dropWhile is_space (drop (length pre + length label) text))))"

record categorization =
  sentiment :: string
  topics :: string
  categories :: string

text \<open>
  Lines 683 to 691 of \<open>handle_journal_logic\<close>: the three fields start at \<open>N/A\<close>; a
  response that is \<open>None\<close>, empty or tagged is not parsed; otherwise each field whose
  label is found becomes the stripped capture.
\<close>

definition field_of :: "string \<Rightarrow> string \<Rightarrow> string" where
  "field_of label response =
     (case search_label label response of None \<Rightarrow> ''N/A'' | Some g \<Rightarrow> strip g)"

definition parse_categorization :: "string option \<Rightarrow> categorization" where
  "parse_categorization categorization_response =
     (case categorization_response of
        None \<Rightarrow> \<lparr>sentiment = ''N/A'', topics = ''N/A'', categories = ''N/A''\<rparr>
      | Some r \<Rightarrow>
          if r \<noteq> [] \<and> \<not> has_err_tag r
          then \<lparr>sentiment = field_of ''Sentiment:'' r,
                topics = field_of ''Topics:'' r,
                categories = field_of ''Categories:'' r\<rparr>
          else \<lparr>sentiment = ''N/A'', topics = ''N/A'', categories = ''N/A''\<rparr>)"

text \<open>
  The same step in multimode_bot_final.py (line 626), where the guard looks for two tags
  only and a missing match is replaced by the list \<open>['', 'N/A']\<close> before \<open>[1].strip()\<close>.
\<close>

definition parse_categorization_legacy :: "string option \<Rightarrow> categorization" where
  "parse_categorization_legacy categorization_response =
     (case categorization_response of
        None \<Rightarrow> \<lparr>sentiment = ''N/A'', topics = ''N/A'', categories = ''N/A''\<rparr>
      | Some r \<Rightarrow>
          if r \<noteq> [] \<and> \<not> sublist ''[BLOCKED:'' r \<and> \<not> sublist ''[API ERROR:'' r
          then \<lparr>sentiment = strip (case search_label ''Sentiment:'' r of
                                     None \<Rightarrow> ''N/A'' | Some g \<Rightarrow> g),
                topics = strip (case search_label ''Topics:'' r of
                                  None \<Rightarrow> ''N/A'' | Some g \<Rightarrow> g),
                categories = strip (case search_label ''Categories:'' r of
                                      None \<Rightarrow> ''N/A'' | Some g \<Rightarrow> g)\<rparr>
          else \<lparr>sentiment = ''N/A'', topics = ''N/A'', categories = ''N/A''\<rparr>)"

section \<open>New_Main.py: labels of the mind map\<close>

text \<open>
  Line 753 of \<open>handle_journal_logic\<close>, the expression inside the f-string:
  \<^verbatim>\<open>topic.strip().replace("-", "_").replace(" ", "_").replace("'", "").replace("`", "")\<close>
  followed by a last \<open>replace\<close> whose first argument is the triple-quoted literal that
  holds one double quote and whose second argument is the empty string.
\<close>

definition sanitize_label :: "string \<Rightarrow> string" where
  "sanitize_label topic =
     replace dquote []
       (replace CHR 0x60 []
         (replace CHR 0x27 []
           (replace CHR '' '' ''_''
             (replace CHR ''-'' ''_'' (strip topic)))))"

text \<open>The two f-strings of lines 753 and 754, for the element \<open>topic\<close> at index \<open>i\<close>.\<close>

definition topic_node :: "nat \<Rightarrow> string \<Rightarrow> string" where
  \<open>topic_node i topic =
     ''topic'' @ str_nat i @ '' [label="Topic: '' @ sanitize_label topic
       @ ''", fillcolor="lightgreen"]; main -> topic'' @ str_nat i @ '';''\<close>

definition category_node :: "nat \<Rightarrow> string \<Rightarrow> string" where
  \<open>category_node i category =
     ''cat'' @ str_nat i @ '' [label="Category: '' @ sanitize_label category
       @ ''", fillcolor="lightcoral"]; main -> cat'' @ str_nat i @ '';''\<close>

text \<open>
  The filter of both comprehensions: \<open>if topic.strip() and topic != 'N/A'\<close>.  The first
  test is on the stripped element, the second on the element as \<open>split(',')\<close> gave it.
\<close>

definition keeps :: "string \<Rightarrow> bool" where
  "keeps topic = (strip topic \<noteq> [] \<and> topic \<noteq> ''N/A'')"

definition topics_dot_str :: "string \<Rightarrow> string" where
  "topics_dot_str topics_text =
     join_space (map (\<lambda>(i, topic). topic_node i topic)
                   (filter (\<lambda>(i, topic). keeps topic)
                      (enumerate 0 (split_on CHR '','' topics_text))))"

definition categories_dot_str :: "string \<Rightarrow> string" where
  "categories_dot_str categories_text =
     join_space (map (\<lambda>(i, category). category_node i category)
                   (filter (\<lambda>(i, category). keeps category)
                      (enumerate 0 (split_on CHR '','' categories_text))))"

section \<open>test_topic_escaping.py\<close>

text \<open>
  \<open>generate_topic_dot_string\<close>, which the file presents as a replica of line 753: the same
  chain, except that the last \<open>replace\<close> puts a backslash before each double quote.
\<close>

definition processed_topic :: "string \<Rightarrow> string" where
  "processed_topic topic_str =
     replace dquote [CHR 0x5C, dquote]
       (replace CHR 0x60 []
         (replace CHR 0x27 []
           (replace CHR '' '' ''_''
             (replace CHR ''-'' ''_'' (strip topic_str)))))"

definition generate_topic_dot_string :: "string \<Rightarrow> nat \<Rightarrow> string" where
  \<open>generate_topic_dot_string topic_str index =
     ''topic'' @ str_nat index @ '' [label="Topic: '' @ processed_topic topic_str
       @ ''", fillcolor="lightgreen"]; main -> topic'' @ str_nat index @ '';''\<close>

text \<open>
  The loop of \<open>main\<close> in the test (lines 35 to 46), said there to simulate the conditions
  of the original line: it strips the element first and compares the stripped text with
  \<open>N/A\<close>.
\<close>

definition test_keeps :: "string \<Rightarrow> bool" where
  "test_keeps topic_from_split =
     (let topic_stripped = strip topic_from_split
      in topic_stripped \<noteq> [] \<and> topic_stripped \<noteq> ''N/A'')"

definition final_topics_dot_str :: "string \<Rightarrow> string" where
  "final_topics_dot_str topics_string =
     join_space (map (\<lambda>(i, topic_from_split).
                        generate_topic_dot_string (strip topic_from_split) i)
                   (filter (\<lambda>(i, topic_from_split). test_keeps topic_from_split)
                      (enumerate 0 (split_on CHR '','' topics_string))))"

section \<open>New_Main.py: the reflective analysis and its diagram\<close>

text \<open>
  \<open>template.format(**kwargs)\<close> with keyword arguments whose values are strings, as
  CPython scans the template.  Outside a field, \<open>{{\<close> and \<open>}}\<close> give one brace, a single
  \<open>}\<close> is an error, and a single \<open>{\<close> opens a field.  The name of a field runs up to the
  next \<open>}\<close>; a \<open>[\<close> in it skips everything up to the next \<open>]\<close>, and a \<open>{\<close> met
  elsewhere in it is an error.  The text produced so far is kept last character first.
  A field is looked up by its whole name among the keywords; conversions and format
  specifications (\<open>!\<close> and \<open>:\<close> in a field) are not covered.
\<close>

fun format_text :: "(string \<times> string) list \<Rightarrow> string \<Rightarrow> string \<Rightarrow> py_exception + string"
  and format_field ::
    "(string \<times> string) list \<Rightarrow> string \<Rightarrow> string \<Rightarrow> bool \<Rightarrow> string \<Rightarrow> py_exception + string" where
  "format_text kwargs done [] = Inr (rev done)"
| "format_text kwargs done (c # cs) =
     (if c = CHR ''}'' then
        (case cs of
           [] \<Rightarrow> Inl (ValueError ''Single '}' encountered in format string'')
         | d # ds \<Rightarrow>
             if d = CHR ''}'' then format_text kwargs (c # done) ds
             else Inl (ValueError ''Single '}' encountered in format string''))
      else if c = CHR ''{'' then
        (case cs of
           [] \<Rightarrow> Inl (ValueError ''Single '{' encountered in format string'')
         | d # ds \<Rightarrow>
             if d = CHR ''{'' then format_text kwargs (c # done) ds
             else format_field kwargs done [] False cs)
      else format_text kwargs (c # done) cs)"
| "format_field kwargs done name in_index [] =
     Inl (ValueError ''expected '}' before end of string'')"
| "format_field kwargs done name in_index (c # cs) =
     (if in_index then format_field kwargs done (name @ [c]) (c \<noteq> CHR '']'') cs
      else if c = CHR ''{'' then Inl (ValueError ''unexpected '{' in field name'')
      else if c = CHR ''['' then format_field kwargs done (name @ [c]) True cs
      else if c = CHR ''}'' then
        (case map_of kwargs name of
           None \<Rightarrow> Inl (KeyError name)
         | Some v \<Rightarrow> format_text kwargs (rev v @ done) cs)
      else if c = CHR '':'' \<or> c = CHR ''!'' then
        Inl (Unmodelled ''conversion or format specification'')
      else format_field kwargs done (name @ [c]) False cs)"

definition str_format :: "string \<Rightarrow> (string \<times> string) list \<Rightarrow> py_exception + string" where
  "str_format template kwargs = format_text kwargs [] template"

text \<open>
  The value of \<open>therapist_analysis_prompt_template\<close> (lines 722 to 748).  The literal is
  an f-string in which every brace is doubled, so it has no replacement field of its own
  and evaluates to this text, with each doubled brace turned into a single one.
\<close>

definition therapist_analysis_prompt_template :: string where
  \<open>therapist_analysis_prompt_template =
     ''Act as a thoughtful and empathetic journaling assistant. The user, ''
       @ ''{display_name}, has provided the following journal entry:'' @ [newline]
     @ [newline]
     @ ''{current_entry_summary}'' @ [newline]
     @ [newline]
     @ ''{history_context}'' @ [newline]
     @ [newline]
     @ ''Considering the current entry and any available history, please provide a ''
       @ ''concise (2-3 paragraphs), empathetic, and insightful analysis. Focus on ''
       @ ''potential patterns, underlying feelings, or themes. Offer 1-2 gentle, ''
       @ ''actionable suggestions or reflective questions that might help ''
       @ ''{display_name}. Avoid giving direct medical advice. Address the user as ''
       @ ''{display_name}.'' @ [newline]
     @ [newline]
     @ ''Also, generate a DOT language representation for a mind map visualizing the ''
       @ ''key themes and connections in the *current* entry. The mind map should be ''
       @ ''simple and clear. Format this DOT code *exactly* between '--- DOT START ''
       @ ''---' and '--- DOT END ---' markers. Ensure the DOT code is valid and ''
       @ ''self-contained.'' @ [newline]
     @ [newline]
     @ ''**Analysis for {display_name}:**'' @ [newline]
     @ ''[Your insightful analysis here]'' @ [newline]
     @ [newline]
     @ ''--- DOT START ---'' @ [newline]
     @ ''digraph JournalMap {'' @ [newline]
     @ ''    rankdir=LR;'' @ [newline]
     @ ''    bgcolor="transparent";'' @ [newline]
     @ ''    node [shape=box, style="rounded,filled", fillcolor=lightblue, ''
       @ ''fontname="Arial", fontsize=10];'' @ [newline]
     @ ''    edge [arrowhead=none, color="#555555"];'' @ [newline]
     @ ''    main [label="{text_summary}..."];'' @ [newline]
     @ ''    senti [label="Sentiment: {sentiment}"];'' @ [newline]
     @ ''    main -> senti;'' @ [newline]
     @ ''    {topics_dot}'' @ [newline]
     @ ''    {categories_dot}'' @ [newline]
     @ ''}'' @ [newline]
     @ ''--- DOT END ---'' @ [newline]\<close>

text \<open>
  Lines 756 to 764: \<open>therapist_analysis_prompt_template.format(...)\<close> with its seven
  keyword arguments.
\<close>

definition therapist_analysis_prompt ::
    "string \<Rightarrow> string \<Rightarrow> string \<Rightarrow> string \<Rightarrow> string \<Rightarrow> string \<Rightarrow> string
       \<Rightarrow> py_exception + string" where
  "therapist_analysis_prompt display_name current_entry_summary history_context
       text_summary sentiment_text topics_dot categories_dot =
     str_format therapist_analysis_prompt_template
       [(''display_name'', display_name),
        (''current_entry_summary'', current_entry_summary),
        (''history_context'', history_context),
        (''text_summary'', text_summary),
        (''sentiment'', sentiment_text),
        (''topics_dot'', topics_dot),
        (''categories_dot'', categories_dot)]"

definition DOT_START :: string where
  "DOT_START = ''--- DOT START ---''"

definition DOT_END :: string where
  "DOT_END = ''--- DOT END ---''"

text \<open>
  \<open>re.search(r"--- DOT START ---([\s\S]*?)--- DOT END ---", text, re.DOTALL)\<close> and its
  \<open>group(1)\<close>.  The search takes the leftmost start marker after which an end marker
  occurs; an end marker that does not follow the leftmost start marker follows no later
  one either, so only the leftmost start marker has to be tried.  The lazy group then
  stops at the first end marker after it.
\<close>

definition dot_match :: "string \<Rightarrow> string option" where
  "dot_match text =
     (case split_first DOT_START text of
        None \<Rightarrow> None
      | Some (pre, rest) \<Rightarrow>
          (case split_first DOT_END rest of
             None \<Rightarrow> None
           | Some (mid, post) \<Rightarrow> Some mid))"

text \<open>\<open>s.split(sep)[0]\<close>: the text before the first separator, or all of \<open>s\<close>.\<close>

definition split_head :: "string \<Rightarrow> string \<Rightarrow> string" where
  "split_head sep s = (case split_first sep s of None \<Rightarrow> s | Some (pre, post) \<Rightarrow> pre)"

text \<open>
  \<open>s.find(pat) + 3\<close>, which is 2 when \<open>pat\<close> does not occur, since \<open>find\<close> is -1 then.
\<close>

definition find_plus_3 :: "string \<Rightarrow> string \<Rightarrow> nat" where
  "find_plus_3 pat s = (case split_first pat s of None \<Rightarrow> 2 | Some (pre, post) \<Rightarrow> length pre + 3)"

text \<open>
  Lines 776 to 785: the user-facing text taken from \<open>analysis_output_candidate\<close>, with
  the preamble up to \<open>:**\<close> cut off when the candidate holds \<open>**Analysis for\<close>.
\<close>

definition analysis_of_candidate :: "string \<Rightarrow> string" where
  "analysis_of_candidate analysis_output_candidate =
     (if sublist ''**Analysis for '' analysis_output_candidate
      then (let marker_end_index = find_plus_3 '':**'' analysis_output_candidate
            in strip (drop marker_end_index analysis_output_candidate))
      else strip analysis_output_candidate)"

text \<open>
  Lines 767 to 796, which run once the prompt has been formatted and sent: from the
  response of the model to the pair \<open>(ai_analysis_output_for_user, dot_code_for_db)\<close>.
\<close>

definition analysis_step :: "string option \<Rightarrow> string \<times> string option" where
  "analysis_step analysis_response_text =
     (case analysis_response_text of
        None \<Rightarrow> (''Sorry, I couldn't generate an analysis for this entry.'', None)
      | Some r \<Rightarrow>
          if r \<noteq> [] \<and> \<not> has_err_tag r then
            (case dot_match r of
               Some g \<Rightarrow> (analysis_of_candidate (split_head DOT_START r), Some (strip g))
             | None \<Rightarrow> (r, None))
          else if r \<noteq> [] then
            (''AI analysis was blocked or encountered an error: '' @ r, None)
          else (''Sorry, I couldn't generate an analysis for this entry.'', None))"

text \<open>
  Lines 756 to 796 of \<open>handle_journal_logic\<close> as a whole.  \<open>gemini\<close> is what
  \<open>generate_gemini_response\<close> returns for a prompt.  An exception of the formatting
  leaves the function before the model is asked.
\<close>

definition reflective_analysis ::
    "(string \<Rightarrow> string option) \<Rightarrow> string \<Rightarrow> string \<Rightarrow> string \<Rightarrow> string \<Rightarrow> string \<Rightarrow> string
       \<Rightarrow> string \<Rightarrow> py_exception + string \<times> string option" where
  "reflective_analysis gemini display_name current_entry_summary history_context
       text_summary sentiment_text topics_dot categories_dot =
     (case therapist_analysis_prompt display_name current_entry_summary history_context
             text_summary sentiment_text topics_dot categories_dot of
        Inl exn \<Rightarrow> Inl exn
      | Inr prompt \<Rightarrow> Inr (analysis_step (gemini prompt)))"

section \<open>multimode_bot_final.py: the same step in the older script\<close>

text \<open>
  A literal at the head of a text, as it is and with \<open>re.I\<close>: the rest of the text behind
  it, or \<open>None\<close>.
\<close>

definition drop_prefix :: "string \<Rightarrow> string \<Rightarrow> string option" where
  "drop_prefix p s = (if prefix p s then Some (drop (length p) s) else None)"

definition drop_prefix_ci :: "string \<Rightarrow> string \<Rightarrow> string option" where
  "drop_prefix_ci p s = (if prefix (lower p) (lower s) then Some (drop (length p) s) else None)"

text \<open>
  The pattern \<open>---\s*WORD\s*---\<close> with \<open>re.I\<close>, matched at the head of a text: the rest
  behind the match.  Each \<open>\s*\<close> stands before a character that is no white space, so it
  takes all the white space there is.
\<close>

definition marker_at :: "string \<Rightarrow> string \<Rightarrow> string option" where
  "marker_at word s =
     (case drop_prefix ''---'' s of
        None \<Rightarrow> None
      | Some s1 \<Rightarrow>
          (case drop_prefix_ci word (dropWhile is_space s1) of
             None \<Rightarrow> None
           | Some s2 \<Rightarrow> drop_prefix ''---'' (dropWhile is_space s2)))"

text \<open>
  The leftmost and the rightmost place where the pattern matches: the text before the
  match and the text behind it.
\<close>

fun first_marker :: "string \<Rightarrow> string \<Rightarrow> (string \<times> string) option" where
  "first_marker word [] = None"
| "first_marker word (c # cs) =
     (case marker_at word (c # cs) of
        Some rest \<Rightarrow> Some ([], rest)
      | None \<Rightarrow>
          (case first_marker word cs of
             None \<Rightarrow> None
           | Some (pre, rest) \<Rightarrow> Some (c # pre, rest)))"

fun last_marker :: "string \<Rightarrow> string \<Rightarrow> (string \<times> string) option" where
  "last_marker word [] = None"
| "last_marker word (c # cs) =
     (case last_marker word cs of
        Some (pre, rest) \<Rightarrow> Some (c # pre, rest)
      | None \<Rightarrow>
          (case marker_at word (c # cs) of
             Some rest \<Rightarrow> Some ([], rest)
           | None \<Rightarrow> None))"

text \<open>
  Lines 634 to 638.  \<open>re.search\<close> with the pattern
  \<open>---\s*DOT START\s*---(.*)---\s*DOT END\s*---\<close> and the flags \<open>re.DOTALL | re.I\<close> takes
  the leftmost start marker and, the group being greedy, the last end marker behind it;
  \<open>re.sub\<close> with the same pattern removes that one match, and the rest is stripped.
\<close>

definition analysis_step_legacy :: "string option \<Rightarrow> string \<times> string option" where
  "analysis_step_legacy analysis_response_text =
     (case analysis_response_text of
        None \<Rightarrow> (''Analysis failed.'', None)
      | Some r \<Rightarrow>
          if r \<noteq> [] \<and> \<not> sublist ''[BLOCKED:'' r \<and> \<not> sublist ''[API ERROR:'' r then
            (case first_marker ''DOT START'' r of
               None \<Rightarrow> (r, None)
             | Some (pre, rest) \<Rightarrow>
                 (case last_marker ''DOT END'' rest of
                    None \<Rightarrow> (r, None)
                  | Some (mid, post) \<Rightarrow> (strip (pre @ post), Some (strip mid))))
          else if r \<noteq> [] then (''Analysis failed/blocked: '' @ r, None)
          else (''Analysis failed.'', None))"

section \<open>New_Main.py: normalizing an inbound message\<close>

text \<open>
  What happens to an audio file inside \<open>transcribe_audio_with_gemini\<close>: the file is gone,
  the model is not configured, the request is blocked for a reason, the response has a
  text, it has none, or an exception of some type is raised on the way.
\<close>

datatype transcription =
    File_missing
  | Model_unavailable
  | Blocked string
  | Text string
  | No_text
  | Raised string

fun transcribe_audio_with_gemini :: "transcription \<Rightarrow> string option" where
  "transcribe_audio_with_gemini File_missing = Some ''[File Not Found Error]''"
| "transcribe_audio_with_gemini Model_unavailable = Some ''[AI Service Unavailable]''"
| "transcribe_audio_with_gemini (Blocked block_reason) =
     Some (''[BLOCKED: '' @ block_reason @ '']'')"
| "transcribe_audio_with_gemini (Text t) = Some (strip t)"
| "transcribe_audio_with_gemini No_text = Some ''[No transcription content]''"
| "transcribe_audio_with_gemini (Raised e) = Some (''[AI Transcription Error: '' @ e @ '']'')"

text \<open>
  \<open>add_punctuation_with_gemini\<close>.  \<open>genai_model\<close> says whether the model is configured;
  \<open>formatted_text\<close> is what \<open>generate_gemini_response\<close> returns for the punctuation
  prompt built from the raw text.
\<close>

definition add_punctuation_with_gemini ::
    "bool \<Rightarrow> (string \<Rightarrow> string option) \<Rightarrow> string \<Rightarrow> string" where
  "add_punctuation_with_gemini genai_model formatted_text raw_text =
     (if raw_text = [] \<or> strip raw_text = [] then raw_text
      else if \<not> genai_model then raw_text
      else (case formatted_text raw_text of
              None \<Rightarrow> raw_text
            | Some f \<Rightarrow>
                if f \<noteq> [] \<and> \<not> sublist ''[BLOCKED:'' f \<and> \<not> sublist ''[API ERROR:'' f
                   \<and> \<not> sublist ''[No text content received]'' f
                then strip f else raw_text))"

text \<open>
  \<open>[s[i:i+max_len] for i in range(0, len(s), max_len)]\<close>, for a positive \<open>max_len\<close>.
\<close>

function chunks :: "nat \<Rightarrow> string \<Rightarrow> string list" where
  "chunks max_len s =
     (if max_len = 0 \<or> s = [] then [] else take max_len s # chunks max_len (drop max_len s))"
  by pat_completeness auto
termination
  by (relation "measure (\<lambda>(max_len, s). length s)") auto

declare chunks.simps [simp del]

text \<open>
  The result of \<open>get_text_from_input\<close>: the triple it returns, and the messages it has
  sent to the user on the way (status messages, which it deletes again, left out).
\<close>

record normalized =
  final_text :: "string option"
  input_type :: "string option"
  error_message :: "string option"
  replies :: "string list"

text \<open>
  The voice branch (lines 523 to 551), from the result of the transcription on.
  \<open>escape_markdown\<close> is the helper of the Telegram library.  The replies are those of
  the path on which no \<open>reply_text\<close> fails.  \<open>cross\<close> stands for the two characters
  U+00E2 U+0152 with which lines 533, 566 and 567 open a message; the second lies
  outside the range of the model.
\<close>

definition voice_branch ::
    "string \<Rightarrow> bool \<Rightarrow> (string \<Rightarrow> string option) \<Rightarrow> (string \<Rightarrow> string) \<Rightarrow> string option
       \<Rightarrow> normalized" where
  "voice_branch cross genai_model formatted_text escape_markdown raw_text =
     (case raw_text of
        None \<Rightarrow>
          \<lparr>final_text = None, input_type = Some ''audio'',
           error_message = Some (cross @ '' Transcription failed (Unknown error).''),
           replies = []\<rparr>
      | Some r \<Rightarrow>
          if sublist ''['' r then
            \<lparr>final_text = None, input_type = Some ''audio'',
             error_message =
               Some (if r \<noteq> [] then r
                     else cross @ '' Transcription failed (Unknown error).''),
             replies = []\<rparr>
          else
            (let punctuated_text = add_punctuation_with_gemini genai_model formatted_text r;
                 display_transcript = punctuated_text;
                 header_text = escape_markdown ''*Audio Transcript* (AI Enhanced):'';
                 safe_display_transcript = escape_markdown display_transcript
             in \<lparr>final_text = Some punctuated_text, input_type = Some ''audio'',
                 error_message = None,
                 replies = header_text #
                   map (\<lambda>chunk. ''```'' @ [newline] @ chunk @ [newline] @ ''```'')
                     (chunks 4000 safe_display_transcript)\<rparr>))"

text \<open>
  The image branch (lines 553 to 569), from the result of the model on, on the path
  where the image opens.
\<close>

definition image_branch :: "string \<Rightarrow> string option \<Rightarrow> normalized" where
  "image_branch cross extracted_text_result =
     (case extracted_text_result of
        None \<Rightarrow>
          \<lparr>final_text = None, input_type = Some ''image'',
           error_message = Some (cross @ '' AI Vision OCR failed.''), replies = []\<rparr>
      | Some r \<Rightarrow>
          if sublist ''[API ERROR:'' r then
            \<lparr>final_text = None, input_type = Some ''image'',
             error_message = Some (if r \<noteq> [] then r else cross @ '' AI Vision OCR failed.''),
             replies = []\<rparr>
          else if sublist ''[BLOCKED:'' r then
            \<lparr>final_text = None, input_type = Some ''image'',
             error_message = Some (cross @ '' AI Vision OCR failed ('' @ r @ '').''),
             replies = []\<rparr>
          else if r = [] \<or> sublist ''[No text content received]'' r then
            \<lparr>final_text = None, input_type = Some ''image'',
             error_message = Some ''AI Vision found no text in the image.'', replies = []\<rparr>
          else
            \<lparr>final_text = Some r, input_type = Some ''image'', error_message = None,
             replies = []\<rparr>)"

text \<open>
  An inbound message: its text, the fate of its voice clip in the transcription, and
  what the model answers to the OCR prompt for its photo.
\<close>

record message =
  text_input :: "string option"
  voice_input :: "transcription option"
  photo_input :: "string option option"

definition get_text_from_input ::
    "string \<Rightarrow> bool \<Rightarrow> (string \<Rightarrow> string option) \<Rightarrow> (string \<Rightarrow> string) \<Rightarrow> message
       \<Rightarrow> normalized" where
  "get_text_from_input cross genai_model formatted_text escape_markdown m =
     (if text_input m \<noteq> None \<and> text_input m \<noteq> Some [] then
        \<lparr>final_text = text_input m, input_type = Some ''text'', error_message = None,
         replies = []\<rparr>
      else (case voice_input m of
              Some clip \<Rightarrow>
                voice_branch cross genai_model formatted_text escape_markdown
                  (transcribe_audio_with_gemini clip)
            | None \<Rightarrow>
                (case photo_input m of
                   Some extracted_text_result \<Rightarrow> image_branch cross extracted_text_result
                 | None \<Rightarrow>
                     \<lparr>final_text = None, input_type = None,
                      error_message = Some ''Unsupported message type.'', replies = []\<rparr>)))"

text \<open>
  \<open>handle_input\<close>, after the mode is known: what becomes of the normalized input.  The
  text is handed to the mode handler unless there is an error message or no text.
\<close>

datatype dispatch = Reply string | To_mode_handler string "string option"

definition handle_input :: "normalized \<Rightarrow> dispatch" where
  "handle_input n =
     (case error_message n of
        Some e \<Rightarrow>
          if e \<noteq> [] then Reply e
          else (case final_text n of
                  None \<Rightarrow> Reply ''Could not process your input. Please try again.''
                | Some extracted_text \<Rightarrow> To_mode_handler extracted_text (input_type n))
      | None \<Rightarrow>
          (case final_text n of
             None \<Rightarrow> Reply ''Could not process your input. Please try again.''
           | Some extracted_text \<Rightarrow> To_mode_handler extracted_text (input_type n)))"

section \<open>New_Main.py: the token usage counter\<close>

text \<open>
  The dictionary that \<open>load_token_data\<close> returns and \<open>save_token_data\<close> writes:
  \<open>{"total": ..., "daily": {"date": ..., "count": ...}, "session": ...}\<close>.
\<close>

record token_data =
  total :: int
  daily_date :: string
  daily_count :: int
  session :: int

text \<open>
  The JSON object found in \<open>token_usage.json\<close>: each key may be missing, and so may each
  key of the object under \<open>daily\<close>.
\<close>

record token_json =
  json_total :: "int option"
  json_daily :: "(string option \<times> int option) option"
  json_session :: "int option"

text \<open>The file: not there, there but not readable as JSON, or holding an object.\<close>

datatype token_file = Absent | Unreadable | Holds token_json

definition default_data :: token_data where
  "default_data = \<lparr>total = 0, daily_date = [], daily_count = 0, session = 0\<rparr>"

text \<open>\<open>d.setdefault(key, v)\<close> on one optional entry.\<close>

definition setdefault :: "'a option \<Rightarrow> 'a \<Rightarrow> 'a" where
  "setdefault entry v = (case entry of None \<Rightarrow> v | Some x \<Rightarrow> x)"

definition load_token_data :: "token_file \<Rightarrow> token_data" where
  "load_token_data f =
     (case f of
        Absent \<Rightarrow> default_data
      | Unreadable \<Rightarrow> default_data
      | Holds data \<Rightarrow>
          (let daily = setdefault (json_daily data) (None, None)
           in \<lparr>total = setdefault (json_total data) 0,
               daily_date = setdefault (fst daily) [],
               daily_count = setdefault (snd daily) 0,
               session = setdefault (json_session data) 0\<rparr>))"

text \<open>
  \<open>save_token_data\<close>: the file after the call and the returned flag.  \<open>writable\<close> says
  whether opening and writing the file goes through; if not, the file is left as it was.
\<close>

definition save_token_data :: "bool \<Rightarrow> token_data \<Rightarrow> token_file \<Rightarrow> token_file \<times> bool" where
  "save_token_data writable data f =
     (if writable
      then (Holds \<lparr>json_total = Some (total data),
                   json_daily = Some (Some (daily_date data), Some (daily_count data)),
                   json_session = Some (session data)\<rparr>, True)
      else (f, False))"

text \<open>
  The process-wide state: the file on disk and the entry \<open>session\<close> of the global
  \<open>token_data_cache\<close>, which starts at \<open>{"session": 0}\<close>.
\<close>

record token_state =
  token_file :: token_file
  cache_session :: int

definition initialize_token_data :: "bool \<Rightarrow> token_state \<Rightarrow> token_state" where
  "initialize_token_data writable st =
     (let loaded_data = load_token_data (token_file st);
          token_data_cache = loaded_data\<lparr>session := 0\<rparr>
      in \<lparr>token_file = fst (save_token_data writable token_data_cache (token_file st)),
          cache_session = session token_data_cache\<rparr>)"

text \<open>
  \<open>increment_token_usage\<close>.  \<open>today\<close> is \<open>datetime.now().strftime("%Y-%m-%d")\<close>, the
  calendar day of the local clock of the host.
\<close>

definition increment_token_usage ::
    "bool \<Rightarrow> string \<Rightarrow> int \<Rightarrow> int \<Rightarrow> token_state \<Rightarrow> token_state" where
  "increment_token_usage writable today prompt_tokens candidate_tokens st =
     (let total_increment = prompt_tokens + candidate_tokens;
          current_data = load_token_data (token_file st);
          current_data = (if daily_date current_data \<noteq> today
                          then current_data\<lparr>daily_date := today, daily_count := 0\<rparr>
                          else current_data);
          current_data = current_data\<lparr>total := total current_data + total_increment\<rparr>;
          current_data = current_data\<lparr>daily_count := daily_count current_data + total_increment\<rparr>;
          cache = cache_session st + total_increment;
          current_data = current_data\<lparr>session := cache\<rparr>
      in \<lparr>token_file = fst (save_token_data writable current_data (token_file st)),
          cache_session = cache\<rparr>)"

text \<open>
  \<open>tokens_command\<close> on the day \<open>today\<close>: the three numbers it reports (session, today,
  all time) and the state it leaves, since it saves a fresh daily entry when the stored
  day is another one.
\<close>

definition tokens_command ::
    "bool \<Rightarrow> string \<Rightarrow> token_state \<Rightarrow> (int \<times> int \<times> int) \<times> token_state" where
  "tokens_command writable today st =
     (let current_data = load_token_data (token_file st);
          stale = (daily_date current_data \<noteq> today);
          current_data = (if stale
                          then current_data\<lparr>daily_date := today, daily_count := 0\<rparr>
                          else current_data);
          f = (if stale then fst (save_token_data writable current_data (token_file st))
               else token_file st)
      in ((cache_session st, daily_count current_data, total current_data),
          st\<lparr>token_file := f\<rparr>))"

section \<open>db_utils.py: the users table\<close>

text \<open>
  The names that db_utils.py binds at module level when it is imported: its three import
  lines, its three path constants and its functions.  A name that a function of the
  module reads and that is not in this list (nor a builtin) raises \<open>NameError\<close>; an
  attribute of the module that is not in this list raises \<open>AttributeError\<close>.
\<close>

definition db_utils :: "string list" where
  "db_utils =
     [''sqlite3'', ''os'', ''datetime'', ''timezone'',
      ''BASE_DIR'', ''DATA_DIR'', ''DATABASE_PATH'',
      ''get_db_connection'', ''create_tables'', ''add_user'', ''get_user'',
      ''update_user_preferences'', ''add_journal_entry'', ''update_journal_entry_analysis'',
      ''get_journal_entries_by_user'', ''add_feedback'', ''add_daily_prompt'',
      ''get_random_daily_prompt'', ''get_all_daily_prompts'']"

text \<open>
  JSON values of the preferences, and a Python \<open>dict\<close> with string keys as an association
  list in which the first entry of a key counts.
\<close>

datatype jval = JNull | JBool bool | JNum int | JStr string

type_synonym prefs = "(string \<times> jval) list"

text \<open>\<open>d.get(key)\<close>, which is \<open>None\<close> for a missing key, and \<open>d.get(key, default)\<close>.\<close>

definition dict_get :: "prefs \<Rightarrow> string \<Rightarrow> jval" where
  "dict_get d k = (case map_of d k of None \<Rightarrow> JNull | Some v \<Rightarrow> v)"

definition dict_get_default :: "prefs \<Rightarrow> string \<Rightarrow> jval \<Rightarrow> jval" where
  "dict_get_default d k dflt = (case map_of d k of None \<Rightarrow> dflt | Some v \<Rightarrow> v)"

text \<open>\<open>d.update(other)\<close>.\<close>

definition dict_update :: "prefs \<Rightarrow> prefs \<Rightarrow> prefs" where
  "dict_update d other = fold (\<lambda>(k, v). AList.update k v) other d"

text \<open>The truth value of a JSON value in a Python condition.\<close>

fun truthy :: "jval \<Rightarrow> bool" where
  "truthy JNull = False"
| "truthy (JBool b) = b"
| "truthy (JNum n) = (n \<noteq> 0)"
| "truthy (JStr s) = (s \<noteq> [])"

text \<open>
  The text stored in the column \<open>preferences\<close>: the empty string, a text that
  \<open>json.loads\<close> rejects, or a text that encodes a dictionary (\<open>json.dumps\<close> of it).  Texts
  that encode other JSON values are left out.  A \<open>NULL\<close> column is \<open>None\<close>.
\<close>

datatype prefs_text = Empty_text | Malformed | Encodes prefs

record user_row =
  telegram_username_col :: "string option"
  display_name_col :: "string option"
  first_seen_col :: nat
  last_interaction_col :: "nat option"
  preferences_col :: "prefs_text option"

text \<open>The table \<open>users\<close>, keyed by \<open>user_id\<close>; timestamps are numbers.\<close>

type_synonym users = "(int \<times> user_row) list"

text \<open>SQL \<open>COALESCE(a, b)\<close> and \<open>UPDATE users SET ... WHERE user_id = ?\<close>.\<close>

definition coalesce :: "'a option \<Rightarrow> 'a option \<Rightarrow> 'a option" where
  "coalesce a b = (case a of None \<Rightarrow> b | Some x \<Rightarrow> Some x)"

definition sql_update :: "int \<Rightarrow> (user_row \<Rightarrow> user_row) \<Rightarrow> users \<Rightarrow> users" where
  "sql_update user_id f us =
     (case map_of us user_id of
        None \<Rightarrow> us
      | Some row \<Rightarrow> AList.update user_id (f row) us)"

text \<open>
  The integers that \<open>sqlite3\<close> binds to a statement are those of 64 bits with sign; for
  any other Python \<open>int\<close> among the parameters \<open>cursor.execute\<close> raises \<open>OverflowError\<close>,
  once it has prepared the statement.
\<close>

definition sqlite_int :: "int \<Rightarrow> bool" where
  "sqlite_int n = (- (2 ^ 63) \<le> n \<and> n < 2 ^ 63)"

definition too_large :: py_exception where
  "too_large = OverflowError ''Python int too large to convert to SQLite INTEGER''"

text \<open>
  \<open>add_user\<close>.  \<open>conn\<close> says whether \<open>get_db_connection\<close> returned a connection and
  \<open>sql_ok\<close> whether the database raises no \<open>sqlite3.Error\<close>, the only exception the
  function catches, in what the call reaches of it: the cursor and the preparation of
  the statement, which come before the parameters are bound, and then the execution and
  the commit.  The statement is an \<open>INSERT\<close> with \<open>ON CONFLICT(user_id) DO UPDATE\<close>,
  where \<open>excluded\<close> is the row proposed for insertion.  An exception that leaves the
  function is \<open>Inl\<close>.
\<close>

definition add_user ::
    "bool \<Rightarrow> bool \<Rightarrow> nat \<Rightarrow> users \<Rightarrow> int \<Rightarrow> string option \<Rightarrow> string option
       \<Rightarrow> users \<times> (py_exception + bool)" where
  "add_user conn sql_ok current_ts us user_id telegram_username display_name =
     (if \<not> conn then (us, Inr False)
      else if \<not> sql_ok then (us, Inr False)
      else if \<not> sqlite_int user_id then (us, Inl too_large)
      else
        (let excluded = \<lparr>telegram_username_col = telegram_username,
                          display_name_col = display_name,
                          first_seen_col = current_ts,
                          last_interaction_col = Some current_ts,
                          preferences_col = None\<rparr>
         in (case map_of us user_id of
               None \<Rightarrow> (AList.update user_id excluded us, Inr True)
             | Some row \<Rightarrow>
                 (AList.update user_id
                    (row\<lparr>telegram_username_col := telegram_username_col excluded,
                         display_name_col :=
                           coalesce (display_name_col excluded) (display_name_col row),
                         last_interaction_col := last_interaction_col excluded\<rparr>) us,
                  Inr True))))"

text \<open>
  The first lines of the \<open>try\<close> block of \<open>update_user_preferences\<close>: \<open>current_prefs\<close> from
  the fetched column.  \<open>json.loads\<close> is reached only for a row whose column is neither
  \<open>NULL\<close> nor empty; it needs the name \<open>json\<close>.
\<close>

definition current_prefs_of :: "string list \<Rightarrow> prefs_text option option \<Rightarrow> py_exception + prefs" where
  "current_prefs_of names current_prefs_json =
     (case current_prefs_json of
        None \<Rightarrow> Inr []
      | Some None \<Rightarrow> Inr []
      | Some (Some Empty_text) \<Rightarrow> Inr []
      | Some (Some Malformed) \<Rightarrow>
          if ''json'' \<in> set names then Inl JSONDecodeError else Inl (NameError ''json'')
      | Some (Some (Encodes d)) \<Rightarrow>
          if ''json'' \<in> set names then Inr d else Inl (NameError ''json''))"

text \<open>
  \<open>update_user_preferences\<close>, run with the module-level names \<open>names\<close>.  It returns
  \<open>False\<close> without a connection or on \<open>sqlite3.Error\<close>, the only exception it catches;
  any other exception leaves the function (\<open>Inl\<close>), and the connection is closed
  without a commit, so the table is as before.  \<open>conn\<close> and \<open>sql_ok\<close> are as for
  \<open>add_user\<close>; the first statement binds \<open>user_id\<close>.
\<close>

definition update_user_preferences ::
    "string list \<Rightarrow> bool \<Rightarrow> bool \<Rightarrow> nat \<Rightarrow> users \<Rightarrow> int \<Rightarrow> string option \<Rightarrow> prefs option
       \<Rightarrow> users \<times> (py_exception + bool)" where
  "update_user_preferences names conn sql_ok now us user_id display_name other_prefs =
     (if \<not> conn then (us, Inr False)
      else if \<not> sql_ok then (us, Inr False)
      else if \<not> sqlite_int user_id then (us, Inl too_large)
      else
        (case current_prefs_of names (map_option preferences_col (map_of us user_id)) of
           Inl exn \<Rightarrow> (us, Inl exn)
         | Inr current_prefs \<Rightarrow>
             (let us1 = (case display_name of
                           None \<Rightarrow> us
                         | Some d \<Rightarrow>
                             sql_update user_id
                               (\<lambda>row. row\<lparr>display_name_col := Some d,
                                           last_interaction_col := Some now\<rparr>) us)
              in (case other_prefs of
                    None \<Rightarrow> (us1, Inr True)
                  | Some p \<Rightarrow>
                      if ''json'' \<in> set names then
                        (sql_update user_id
                           (\<lambda>row. row\<lparr>preferences_col :=
                                         Some (Encodes (dict_update current_prefs p)),
                                       last_interaction_col := Some now\<rparr>) us1,
                         Inr True)
                      else (us, Inl (NameError ''json''))))))"

text \<open>
  \<open>get_random_daily_prompt\<close>: the text of one row of \<open>daily_prompts\<close>, which
  \<open>ORDER BY RANDOM() LIMIT 1\<close> picks; \<open>pick\<close> stands for the random choice.
\<close>

definition get_random_daily_prompt :: "bool \<Rightarrow> string list \<Rightarrow> nat \<Rightarrow> string option" where
  "get_random_daily_prompt conn daily_prompts pick =
     (if \<not> conn then None
      else if daily_prompts = [] then None
      else Some (daily_prompts ! (pick mod length daily_prompts)))"

section \<open>New_Main.py: the daily prompt scheduler\<close>

text \<open>
  \<open>datetime.strptime(s, '%H:%M')\<close>, or \<open>None\<close> where it raises \<open>ValueError\<close>.  The format
  is matched as \<open>(2[0-3]|[0-1]\d|\d):([0-5]\d|\d)\<close> against the whole text.
\<close>

definition is_digit :: "char \<Rightarrow> bool" where
  "is_digit c = (ord CHR ''0'' \<le> ord c \<and> ord c \<le> ord CHR ''9'')"

definition digit_val :: "char \<Rightarrow> nat" where
  "digit_val c = ord c - ord CHR ''0''"

fun hour_field :: "string \<Rightarrow> nat option" where
  "hour_field [a] = (if is_digit a then Some (digit_val a) else None)"
| "hour_field [a, b] =
     (if is_digit a \<and> is_digit b \<and> 10 * digit_val a + digit_val b \<le> 23
      then Some (10 * digit_val a + digit_val b) else None)"
| "hour_field s = None"

fun minute_field :: "string \<Rightarrow> nat option" where
  "minute_field [a] = (if is_digit a then Some (digit_val a) else None)"
| "minute_field [a, b] =
     (if is_digit a \<and> digit_val a \<le> 5 \<and> is_digit b
      then Some (10 * digit_val a + digit_val b) else None)"
| "minute_field s = None"

definition strptime_HM :: "string \<Rightarrow> (nat \<times> nat) option" where
  "strptime_HM s =
     (case split_first '':'' s of
        None \<Rightarrow> None
      | Some (h, m) \<Rightarrow>
          (case hour_field h of
             None \<Rightarrow> None
           | Some hh \<Rightarrow>
               (case minute_field m of
                  None \<Rightarrow> None
                | Some mm \<Rightarrow> Some (hh, mm))))"

text \<open>
  Lines 427 to 432: the preferred time of a user.  A stored value that is not a string
  makes \<open>strptime\<close> raise \<open>TypeError\<close>, which the \<open>except ValueError\<close> does not catch.
\<close>

definition preferred_time_obj :: "prefs \<Rightarrow> py_exception + (nat \<times> nat)" where
  "preferred_time_obj preferences =
     (case dict_get_default preferences ''preferred_prompt_time'' (JStr ''09:00'') of
        JStr preferred_time_str \<Rightarrow>
          (case strptime_HM preferred_time_str of
             Some t \<Rightarrow> Inr t
           | None \<Rightarrow> Inr (9, 0))
      | _ \<Rightarrow> Inl (TypeError ''strptime() argument 1 must be str''))"

text \<open>
  \<open>now_utc\<close>: the day as \<open>strftime('%Y-%m-%d')\<close> prints it and the time of day.  A time
  of day is at or past \<open>HH:MM\<close> exactly when its hour and minute are.
\<close>

record utc_now =
  today_str :: string
  hour :: nat
  minute :: nat

definition time_ge :: "nat \<times> nat \<Rightarrow> nat \<times> nat \<Rightarrow> bool" where
  "time_ge a b = (fst b < fst a \<or> (fst a = fst b \<and> snd b \<le> snd a))"

text \<open>
  The text of the message of l.440.  \<open>mark\<close> stands for the three characters U+00E2
  U+0153 U+00A8 that the line puts before and after the title; the second lies outside
  the range of the model.
\<close>

definition daily_prompt_message :: "string \<Rightarrow> string \<Rightarrow> string" where
  "daily_prompt_message mark prompt_text =
     mark @ '' Daily Journal Prompt '' @ mark @ [newline, newline] @ prompt_text"

text \<open>
  What one scan works with besides the table: the characters around the title of the
  message, the module-level names of db_utils, the database connection, the rows of
  \<open>daily_prompts\<close>, the random pick, which chats accept a message, and the clock.
\<close>

record scan_env =
  banner_mark :: string
  names :: "string list"
  conn :: bool
  sql_ok :: bool
  daily_prompts :: "string list"
  pick :: nat
  deliverable :: "int \<Rightarrow> bool"
  now_utc :: utc_now
  now_ts :: nat

text \<open>
  The state of a scan: the table and the messages sent so far, as pairs of chat and
  text.
\<close>

type_synonym scan_state = "users \<times> (int \<times> string) list"

text \<open>
  The body of the \<open>for\<close> loop (lines 416 to 447) for one \<open>user_data\<close>.  \<open>Inl\<close> is an
  exception that leaves the loop.  An exception of \<open>send_message\<close> or of
  \<open>update_user_preferences\<close> is caught by the inner \<open>except Exception\<close> and only logged.
\<close>

definition prompt_user :: "scan_env \<Rightarrow> int \<times> prefs_text option \<Rightarrow> scan_state \<Rightarrow> py_exception + scan_state" where
  "prompt_user env user_data st =
     (let user_id = fst user_data;
          preferences_str = snd user_data;
          us = fst st;
          sent = snd st
      in (case (case preferences_str of
                  None \<Rightarrow> Some []
                | Some Empty_text \<Rightarrow> Some []
                | Some Malformed \<Rightarrow> None
                | Some (Encodes d) \<Rightarrow> Some d) of
            None \<Rightarrow> Inr st
          | Some preferences \<Rightarrow>
              if truthy (dict_get preferences ''daily_prompt_enabled'')
                 \<and> dict_get preferences ''last_prompt_sent_date'' \<noteq> JStr (today_str (now_utc env))
              then
                (case preferred_time_obj preferences of
                   Inl exn \<Rightarrow> Inl exn
                 | Inr t \<Rightarrow>
                     if time_ge (hour (now_utc env), minute (now_utc env)) t then
                       (case get_random_daily_prompt (conn env) (daily_prompts env) (pick env) of
                          None \<Rightarrow> Inr st
                        | Some prompt_text \<Rightarrow>
                            if deliverable env user_id then
                              (let sent1 = sent @ [(user_id, daily_prompt_message (banner_mark env)
                                                   prompt_text)];
                                   preferences1 = AList.update ''last_prompt_sent_date''
                                                    (JStr (today_str (now_utc env))) preferences
                               in Inr (fst (update_user_preferences (names env) (conn env)
                                              (sql_ok env) (now_ts env) us user_id None
                                              (Some preferences1)),
                                       sent1))
                            else Inr st)
                     else Inr st)
              else Inr st))"

text \<open>The \<open>for\<close> loop: it stops at the first exception that leaves its body.\<close>

fun for_users ::
    "scan_env \<Rightarrow> (int \<times> prefs_text option) list \<Rightarrow> scan_state \<Rightarrow> scan_state \<times> py_exception option" where
  "for_users env [] st = (st, None)"
| "for_users env (user_data # rest) st =
     (case prompt_user env user_data st of
        Inl exn \<Rightarrow> (st, Some exn)
      | Inr st1 \<Rightarrow> for_users env rest st1)"

text \<open>
  One pass of the \<open>while\<close> loop of \<open>daily_prompt_scheduler\<close> after the sleep (lines 405 to
  454).  \<open>helper\<close> is what \<open>db_utils.get_users_for_daily_prompt_check\<close> returns for the
  table if the module has that attribute.  The result is the table, the messages sent,
  and the exception that the outer \<open>except\<close> logged, if any.
\<close>

definition scan ::
    "scan_env \<Rightarrow> (users \<Rightarrow> (int \<times> prefs_text option) list) \<Rightarrow> users
       \<Rightarrow> scan_state \<times> py_exception option" where
  "scan env helper us =
     (if ''get_users_for_daily_prompt_check'' \<notin> set (names env)
      then ((us, []), Some (AttributeError ''get_users_for_daily_prompt_check''))
      else (let users_to_prompt = helper us
            in if users_to_prompt = [] then ((us, []), None)
               else for_users env users_to_prompt (us, [])))"

text \<open>
  Modelled from the spec: db_utils.py has no function \<open>get_users_for_daily_prompt_check\<close>,
  which the scheduler calls.  Sections 4.4 and 6 of the specification describe it: it
  retrieves all users with the daily-prompt preference enabled, as a sequence of user
  identifier and preferences.
\<close>

definition get_users_for_daily_prompt_check :: "users \<Rightarrow> (int \<times> prefs_text option) list" where
  "get_users_for_daily_prompt_check us =
     map (\<lambda>(user_id, row). (user_id, preferences_col row))
       (filter (\<lambda>(user_id, row).
                  (case preferences_col row of
                     Some (Encodes d) \<Rightarrow> truthy (dict_get d ''daily_prompt_enabled'')
                   | _ \<Rightarrow> False)) us)"

section \<open>Facts about the string primitives\<close>

lemmas py_eval = strip_def lstrip_def rstrip_def is_space_def sublist_code char_of_eq_iff

lemmas tag_eval = has_err_tag_def err_tags_def lower_def lower_char_def

lemma split_first_None_iff: "split_first pat s = None \<longleftrightarrow> \<not> sublist pat s"
  by (induction s) (auto simp: sublist_Cons_right split: option.splits)

lemma split_first_SomeD:
  "split_first pat s = Some (pre, post) \<Longrightarrow> s = pre @ pat @ post"
proof (induction s arbitrary: pre)
  case Nil
  then show ?case by (simp split: if_splits)
next
  case (Cons c cs)
  show ?case
  proof (cases "prefix pat (c # cs)")
    case True
    then obtain zs where z: "c # cs = pat @ zs"
      by (auto simp: prefix_def)
    from True Cons.prems have "pre = []" and "post = drop (length pat) (c # cs)"
      by simp_all
    then show ?thesis
      by (simp add: z)
  next
    case False
    with Cons.prems obtain pre' where "split_first pat cs = Some (pre', post)" "pre = c # pre'"
      by (auto split: option.splits)
    with Cons.IH show ?thesis by simp
  qed
qed

lemma prefix_shorter:
  "prefix p (xs @ ys) \<Longrightarrow> length p \<le> length xs \<Longrightarrow> prefix p xs"
  by (auto simp: prefix_append)

lemma split_first_leftmost:
  assumes "pat \<noteq> []" and "\<not> sublist pat (pre @ butlast pat)"
  shows "split_first pat (pre @ pat @ rest) = Some (pre, rest)"
  using assms(2)
proof (induction pre)
  case Nil
  obtain c cs where p: "pat = c # cs"
    using assms(1) by (cases pat) auto
  have "split_first pat ((c # cs) @ rest) = Some ([], rest)"
    by (simp add: p)
  then show ?case by (simp add: p)
next
  case (Cons a pre)
  have np: "\<not> prefix pat ((a # pre) @ butlast pat)"
    using Cons.prems by (meson prefix_imp_sublist)
  have eq: "(a # pre) @ pat @ rest = ((a # pre) @ butlast pat) @ (last pat # rest)"
    using assms(1) by (simp add: append_butlast_last_id [symmetric] del: append_butlast_last_id)
  have len: "length pat \<le> length ((a # pre) @ butlast pat)"
    by simp
  have "\<not> prefix pat ((a # pre) @ pat @ rest)"
    using np prefix_shorter [OF _ len] unfolding eq by blast
  moreover have "\<not> sublist pat (pre @ butlast pat)"
    using Cons.prems by (simp add: sublist_Cons_right)
  ultimately show ?case
    using Cons.IH by simp
qed

lemma sublist_strip: "sublist (strip s) s"
proof -
  have "sublist (rstrip u) u" for u
  proof -
    have "sublist (dropWhile is_space (rev u)) (rev u)" by simp
    then show ?thesis
      unfolding rstrip_def by (simp add: sublist_rev_left)
  qed
  moreover have "sublist (lstrip s) s"
    by (simp add: lstrip_def)
  ultimately show ?thesis
    unfolding strip_def by (meson sublist_order.order_trans)
qed

lemma strip_NA: "strip ''N/A'' = ''N/A''"
  by (simp add: strip_def lstrip_def rstrip_def is_space_def)

lemma replace_absent: "old \<notin> set s \<Longrightarrow> replace old new s = s"
  by (induction s) (auto simp: replace_def)

lemma set_replace: "set (replace old new s) \<subseteq> (set s - {old}) \<union> set new"
  by (induction s) (auto simp: replace_def)

lemma set_replace_empty: "set (replace old [] s) = set s - {old}"
  by (induction s) (auto simp: replace_def)

lemma set_strip: "set (strip s) \<subseteq> set s"
proof -
  have "set (rstrip u) \<subseteq> set u" for u
    using set_dropWhileD [of _ is_space "rev u"] by (auto simp: rstrip_def)
  moreover have "set (lstrip s) \<subseteq> set s"
    using set_dropWhileD [of _ is_space s] by (auto simp: lstrip_def)
  ultimately show ?thesis
    unfolding strip_def by blast
qed

lemma dropWhile_none: "\<forall>x \<in> set xs. \<not> P x \<Longrightarrow> dropWhile P xs = xs"
  by (cases xs) auto

lemma strip_no_space: "\<forall>c \<in> set s. \<not> is_space c \<Longrightarrow> strip s = s"
  by (simp add: strip_def lstrip_def rstrip_def dropWhile_none)

section \<open>Properties of utils.py and the chatbot reply\<close>

lemma reverse_char_involution: "reverse_char (reverse_char c) = c"
  unfolding reverse_char_def by auto

lemma reverse_alphabet_map: "reverse_alphabet s = map reverse_char s"
  by (induction s) simp_all

lemma reverse_char_lower:
  "ord CHR ''a'' \<le> ord c \<Longrightarrow> ord c \<le> ord CHR ''z'' \<Longrightarrow>
     ord (reverse_char c) = ord CHR ''a'' + ord CHR ''z'' - ord c"
  unfolding reverse_char_def by auto

lemma reverse_char_upper:
  "ord CHR ''A'' \<le> ord c \<Longrightarrow> ord c \<le> ord CHR ''Z'' \<Longrightarrow>
     ord (reverse_char c) = ord CHR ''A'' + ord CHR ''Z'' - ord c"
  unfolding reverse_char_def by auto

lemma reverse_char_other:
  "\<not> (ord CHR ''a'' \<le> ord c \<and> ord c \<le> ord CHR ''z'') \<Longrightarrow>
   \<not> (ord CHR ''A'' \<le> ord c \<and> ord c \<le> ord CHR ''Z'') \<Longrightarrow> reverse_char c = c"
  unfolding reverse_char_def by auto

text \<open>
  Claim C10.  In chatbot mode a usable model response is shown to the user as its image
  under \<open>reverse_alphabet\<close>.  That function keeps the length, is its own inverse, sends
  each letter \<open>a\<close> to \<open>z\<close> and \<open>A\<close> to \<open>Z\<close> to its mirror in the same case, and leaves
  every other character where it is.
\<close>

theorem C10_reverse_alphabet:
  fixes r s :: string
  shows "(\<not> sublist ''[API ERROR:'' r \<and> \<not> sublist ''[BLOCKED:'' r \<longrightarrow>
            handle_chatbot_logic (Some r) = reverse_alphabet r)
       \<and> length (reverse_alphabet s) = length s
       \<and> reverse_alphabet (reverse_alphabet s) = s
       \<and> (\<forall>i < length s.
            (ord CHR ''a'' \<le> ord (s ! i) \<and> ord (s ! i) \<le> ord CHR ''z'' \<longrightarrow>
               ord (reverse_alphabet s ! i) = ord CHR ''a'' + ord CHR ''z'' - ord (s ! i))
          \<and> (ord CHR ''A'' \<le> ord (s ! i) \<and> ord (s ! i) \<le> ord CHR ''Z'' \<longrightarrow>
               ord (reverse_alphabet s ! i) = ord CHR ''A'' + ord CHR ''Z'' - ord (s ! i))
          \<and> (\<not> (ord CHR ''a'' \<le> ord (s ! i) \<and> ord (s ! i) \<le> ord CHR ''z'') \<and>
             \<not> (ord CHR ''A'' \<le> ord (s ! i) \<and> ord (s ! i) \<le> ord CHR ''Z'') \<longrightarrow>
               reverse_alphabet s ! i = s ! i))
       \<and> reverse_alphabet ''abAB-yz'' = ''zyZY-ba''"
proof (intro conjI allI impI)
  show "length (reverse_alphabet s) = length s"
    by (simp add: reverse_alphabet_map)
  show "reverse_alphabet (reverse_alphabet s) = s"
    by (simp add: reverse_alphabet_map reverse_char_involution comp_def)
  show "reverse_alphabet ''abAB-yz'' = ''zyZY-ba''"
    by (simp add: reverse_char_def char_of_eq_iff)
next
  assume "\<not> sublist ''[API ERROR:'' r \<and> \<not> sublist ''[BLOCKED:'' r"
  then show "handle_chatbot_logic (Some r) = reverse_alphabet r"
    by (simp add: handle_chatbot_logic_def)
next
  fix i assume "i < length s"
    and "ord CHR ''a'' \<le> ord (s ! i) \<and> ord (s ! i) \<le> ord CHR ''z''"
  then show "ord (reverse_alphabet s ! i) = ord CHR ''a'' + ord CHR ''z'' - ord (s ! i)"
    using reverse_char_lower [of "s ! i"] by (simp add: reverse_alphabet_map)
next
  fix i assume "i < length s"
    and "ord CHR ''A'' \<le> ord (s ! i) \<and> ord (s ! i) \<le> ord CHR ''Z''"
  then show "ord (reverse_alphabet s ! i) = ord CHR ''A'' + ord CHR ''Z'' - ord (s ! i)"
    using reverse_char_upper [of "s ! i"] by (simp add: reverse_alphabet_map)
next
  fix i assume "i < length s"
    and "\<not> (ord CHR ''a'' \<le> ord (s ! i) \<and> ord (s ! i) \<le> ord CHR ''z'') \<and>
         \<not> (ord CHR ''A'' \<le> ord (s ! i) \<and> ord (s ! i) \<le> ord CHR ''Z'')"
  then show "reverse_alphabet s ! i = s ! i"
    using reverse_char_other [of "s ! i"] by (simp add: reverse_alphabet_map)
qed

text \<open>The statement at the reply \<open>Hi, Bob!\<close>, which carries no error tag.\<close>

theorem C10_reverse_alphabet_witness:
  "handle_chatbot_logic (Some ''Hi, Bob!'') = ''Sr, Yly!''
   \<and> length (reverse_alphabet ''Hi, Bob!'') = 8
   \<and> reverse_alphabet (reverse_alphabet ''Hi, Bob!'') = ''Hi, Bob!''
   \<and> ord (reverse_alphabet ''Hi, Bob!'' ! 1) = ord CHR ''r''
   \<and> ord (reverse_alphabet ''Hi, Bob!'' ! 0) = ord CHR ''S''
   \<and> reverse_alphabet ''Hi, Bob!'' ! 2 = CHR '',''"
  using C10_reverse_alphabet [of "''Hi, Bob!''" "''Hi, Bob!''"]
  by (simp add: reverse_char_def char_of_eq_iff sublist_code)

section \<open>Properties of the categorization parser\<close>

lemmas categorize_eval = search_label_def field_of_def

lemma field_of_missing:
  "\<not> sublist (lower label) (lower r) \<Longrightarrow> field_of label r = ''N/A''"
  by (simp add: field_of_def search_label_def split_first_None_iff [symmetric])

lemma legacy_field_missing:
  "\<not> sublist (lower label) (lower r) \<Longrightarrow>
     strip (case search_label label r of None \<Rightarrow> ''N/A'' | Some g \<Rightarrow> g) = ''N/A''"
  by (simp add: search_label_def split_first_None_iff [symmetric] strip_NA)

lemma search_label_found:
  assumes "lower lab = lower label" and "label \<noteq> []"
    and "\<not> sublist (lower label) (lower (pre @ butlast lab))"
  shows "search_label label (pre @ lab @ after)
           = Some (takeWhile (\<lambda>c. c \<noteq> newline) (dropWhile is_space after))"
proof -
  have len: "length lab = length label"
    using assms(1) unfolding lower_def by (metis length_map)
  have ne: "lower label \<noteq> []"
    using assms(2) by (simp add: lower_def)
  have "lower (pre @ butlast lab) = lower pre @ butlast (lower label)"
    using assms(1) by (simp add: lower_def map_butlast)
  then have first: "\<not> sublist (lower label) (lower pre @ butlast (lower label))"
    using assms(3) by simp
  have "lower (pre @ lab @ after) = lower pre @ lower label @ lower after"
    using assms(1) by (simp add: lower_def)
  then have "split_first (lower label) (lower (pre @ lab @ after)) = Some (lower pre, lower after)"
    using split_first_leftmost [OF ne first, of "lower after"] by simp
  then show ?thesis
    by (simp add: search_label_def len lower_def)
qed

lemma parse_found:
  assumes "lower lab = lower label" and "label \<noteq> []"
    and "\<not> sublist (lower label) (lower (pre @ butlast lab))"
  shows "field_of label (pre @ lab @ after)
           = strip (takeWhile (\<lambda>c. c \<noteq> newline) (dropWhile is_space after))"
    and "strip (case search_label label (pre @ lab @ after) of None \<Rightarrow> ''N/A'' | Some g \<Rightarrow> g)
           = strip (takeWhile (\<lambda>c. c \<noteq> newline) (dropWhile is_space after))"
  using search_label_found [OF assms] by (simp_all add: field_of_def)

lemma lab_nonempty: "lower lab = lower label \<Longrightarrow> label \<noteq> [] \<Longrightarrow> pre @ lab @ after \<noteq> []"
  unfolding lower_def by (metis Nil_is_append_conv map_is_Nil_conv)

lemma parse_untagged:
  assumes "r \<noteq> []" and "\<not> has_err_tag r"
  shows "parse_categorization (Some r)
           = \<lparr>sentiment = field_of ''Sentiment:'' r, topics = field_of ''Topics:'' r,
              categories = field_of ''Categories:'' r\<rparr>"
    and "parse_categorization_legacy (Some r)
           = \<lparr>sentiment = strip (case search_label ''Sentiment:'' r of
                                   None \<Rightarrow> ''N/A'' | Some g \<Rightarrow> g),
              topics = strip (case search_label ''Topics:'' r of
                                None \<Rightarrow> ''N/A'' | Some g \<Rightarrow> g),
              categories = strip (case search_label ''Categories:'' r of
                                    None \<Rightarrow> ''N/A'' | Some g \<Rightarrow> g)\<rparr>"
  using assms
  by (simp_all add: parse_categorization_def parse_categorization_legacy_def
      has_err_tag_def err_tags_def)

lemma parse_labelled:
  assumes "lower lab = lower label" and "label \<noteq> []"
    and "\<not> sublist (lower label) (lower (pre @ butlast lab))"
    and "\<not> has_err_tag (pre @ lab @ after)"
  shows "parse_categorization (Some (pre @ lab @ after))
           = \<lparr>sentiment = field_of ''Sentiment:'' (pre @ lab @ after),
              topics = field_of ''Topics:'' (pre @ lab @ after),
              categories = field_of ''Categories:'' (pre @ lab @ after)\<rparr>"
    and "parse_categorization_legacy (Some (pre @ lab @ after))
           = \<lparr>sentiment = strip (case search_label ''Sentiment:'' (pre @ lab @ after) of
                                   None \<Rightarrow> ''N/A'' | Some g \<Rightarrow> g),
              topics = strip (case search_label ''Topics:'' (pre @ lab @ after) of
                                None \<Rightarrow> ''N/A'' | Some g \<Rightarrow> g),
              categories = strip (case search_label ''Categories:'' (pre @ lab @ after) of
                                    None \<Rightarrow> ''N/A'' | Some g \<Rightarrow> g)\<rparr>"
    and "field_of label (pre @ lab @ after)
           = strip (takeWhile (\<lambda>c. c \<noteq> newline) (dropWhile is_space after))"
    and "strip (case search_label label (pre @ lab @ after) of None \<Rightarrow> ''N/A'' | Some g \<Rightarrow> g)
           = strip (takeWhile (\<lambda>c. c \<noteq> newline) (dropWhile is_space after))"
  using parse_untagged [OF lab_nonempty [OF assms(1,2)] assms(4)]
    parse_found [OF assms(1,2,3)]
  by blast+

lemma char_eq_chr: "(c = chr n) = (of_char c = take_bit 8 n)"
  using char_of_eq_iff [of n c] by auto

text \<open>
  Claim C2.  The response \<open>Sentiment: Hopeful / Topics: Work, Family / Categories: Workplace\<close>
  (three lines) parses to the fields \<open>Hopeful\<close>, \<open>Work, Family\<close> and \<open>Workplace\<close>, and
  so does the same response with the labels written \<open>SENTIMENT:\<close>, \<open>topics:\<close> and
  \<open>CaTeGoRiEs:\<close>.  In general each field is searched for in the whole response, not line
  by line: when the response is \<open>pre @ lab @ after\<close>, where \<open>lab\<close> is the label in some
  letter case and no occurrence of the label starts before it, and the response carries no
  error tag, the field is \<open>after\<close> without its leading white space (line breaks included),
  cut at the next line feed and stripped.  For every response in which the label does not
  occur at all, in any case, the field is the literal \<open>N/A\<close>.  All of this holds for
  New_Main.py and for the older multimode_bot_final.py.
\<close>

theorem C2_parse_categorization:
  fixes r pre lab after :: string
  shows
   "parse_categorization
      (Some (''Sentiment: Hopeful'' @ [newline] @ ''Topics: Work, Family'' @ [newline]
             @ ''Categories: Workplace''))
      = \<lparr>sentiment = ''Hopeful'', topics = ''Work, Family'', categories = ''Workplace''\<rparr>
    \<and> parse_categorization_legacy
      (Some (''Sentiment: Hopeful'' @ [newline] @ ''Topics: Work, Family'' @ [newline]
             @ ''Categories: Workplace''))
      = \<lparr>sentiment = ''Hopeful'', topics = ''Work, Family'', categories = ''Workplace''\<rparr>
    \<and> parse_categorization
      (Some (''SENTIMENT: Hopeful'' @ [newline] @ ''topics: Work, Family'' @ [newline]
             @ ''CaTeGoRiEs: Workplace''))
      = \<lparr>sentiment = ''Hopeful'', topics = ''Work, Family'', categories = ''Workplace''\<rparr>
    \<and> parse_categorization_legacy
      (Some (''SENTIMENT: Hopeful'' @ [newline] @ ''topics: Work, Family'' @ [newline]
             @ ''CaTeGoRiEs: Workplace''))
      = \<lparr>sentiment = ''Hopeful'', topics = ''Work, Family'', categories = ''Workplace''\<rparr>
    \<and> (lower lab = lower ''Sentiment:''
         \<and> \<not> sublist (lower ''Sentiment:'') (lower (pre @ butlast lab))
         \<and> \<not> has_err_tag (pre @ lab @ after) \<longrightarrow>
          sentiment (parse_categorization (Some (pre @ lab @ after)))
            = strip (takeWhile (\<lambda>c. c \<noteq> newline) (dropWhile is_space after))
        \<and> sentiment (parse_categorization_legacy (Some (pre @ lab @ after)))
            = strip (takeWhile (\<lambda>c. c \<noteq> newline) (dropWhile is_space after)))
    \<and> (lower lab = lower ''Topics:''
         \<and> \<not> sublist (lower ''Topics:'') (lower (pre @ butlast lab))
         \<and> \<not> has_err_tag (pre @ lab @ after) \<longrightarrow>
          topics (parse_categorization (Some (pre @ lab @ after)))
            = strip (takeWhile (\<lambda>c. c \<noteq> newline) (dropWhile is_space after))
        \<and> topics (parse_categorization_legacy (Some (pre @ lab @ after)))
            = strip (takeWhile (\<lambda>c. c \<noteq> newline) (dropWhile is_space after)))
    \<and> (lower lab = lower ''Categories:''
         \<and> \<not> sublist (lower ''Categories:'') (lower (pre @ butlast lab))
         \<and> \<not> has_err_tag (pre @ lab @ after) \<longrightarrow>
          categories (parse_categorization (Some (pre @ lab @ after)))
            = strip (takeWhile (\<lambda>c. c \<noteq> newline) (dropWhile is_space after))
        \<and> categories (parse_categorization_legacy (Some (pre @ lab @ after)))
            = strip (takeWhile (\<lambda>c. c \<noteq> newline) (dropWhile is_space after)))
    \<and> (\<not> sublist (lower ''Sentiment:'') (lower r) \<longrightarrow>
          sentiment (parse_categorization (Some r)) = ''N/A''
        \<and> sentiment (parse_categorization_legacy (Some r)) = ''N/A'')
    \<and> (\<not> sublist (lower ''Topics:'') (lower r) \<longrightarrow>
          topics (parse_categorization (Some r)) = ''N/A''
        \<and> topics (parse_categorization_legacy (Some r)) = ''N/A'')
    \<and> (\<not> sublist (lower ''Categories:'') (lower r) \<longrightarrow>
          categories (parse_categorization (Some r)) = ''N/A''
        \<and> categories (parse_categorization_legacy (Some r)) = ''N/A'')"
proof -
  have ex: "parse_categorization
      (Some (''Sentiment: Hopeful'' @ [newline] @ ''Topics: Work, Family'' @ [newline]
             @ ''Categories: Workplace''))
      = \<lparr>sentiment = ''Hopeful'', topics = ''Work, Family'', categories = ''Workplace''\<rparr>"
    by (simp add: parse_categorization_def categorize_eval tag_eval py_eval)
  have ex_legacy: "parse_categorization_legacy
      (Some (''Sentiment: Hopeful'' @ [newline] @ ''Topics: Work, Family'' @ [newline]
             @ ''Categories: Workplace''))
      = \<lparr>sentiment = ''Hopeful'', topics = ''Work, Family'', categories = ''Workplace''\<rparr>"
    by (simp add: parse_categorization_legacy_def categorize_eval tag_eval py_eval)
  have cs: "parse_categorization
      (Some (''SENTIMENT: Hopeful'' @ [newline] @ ''topics: Work, Family'' @ [newline]
             @ ''CaTeGoRiEs: Workplace''))
      = \<lparr>sentiment = ''Hopeful'', topics = ''Work, Family'', categories = ''Workplace''\<rparr>"
    by (simp add: parse_categorization_def parse_categorization_legacy_def categorize_eval tag_eval py_eval lower_def lower_char_def char_eq_chr)
  have cs_legacy: "parse_categorization_legacy
      (Some (''SENTIMENT: Hopeful'' @ [newline] @ ''topics: Work, Family'' @ [newline]
             @ ''CaTeGoRiEs: Workplace''))
      = \<lparr>sentiment = ''Hopeful'', topics = ''Work, Family'', categories = ''Workplace''\<rparr>"
    by (simp add: parse_categorization_def parse_categorization_legacy_def categorize_eval tag_eval py_eval lower_def lower_char_def char_eq_chr)
  have f1: "lower lab = lower ''Sentiment:''
         \<and> \<not> sublist (lower ''Sentiment:'') (lower (pre @ butlast lab))
         \<and> \<not> has_err_tag (pre @ lab @ after) \<longrightarrow>
          sentiment (parse_categorization (Some (pre @ lab @ after)))
            = strip (takeWhile (\<lambda>c. c \<noteq> newline) (dropWhile is_space after))
        \<and> sentiment (parse_categorization_legacy (Some (pre @ lab @ after)))
            = strip (takeWhile (\<lambda>c. c \<noteq> newline) (dropWhile is_space after))"
    using parse_labelled [of lab "''Sentiment:''" pre after] by simp
  have f2: "lower lab = lower ''Topics:''
         \<and> \<not> sublist (lower ''Topics:'') (lower (pre @ butlast lab))
         \<and> \<not> has_err_tag (pre @ lab @ after) \<longrightarrow>
          topics (parse_categorization (Some (pre @ lab @ after)))
            = strip (takeWhile (\<lambda>c. c \<noteq> newline) (dropWhile is_space after))
        \<and> topics (parse_categorization_legacy (Some (pre @ lab @ after)))
            = strip (takeWhile (\<lambda>c. c \<noteq> newline) (dropWhile is_space after))"
    using parse_labelled [of lab "''Topics:''" pre after] by simp
  have f3: "lower lab = lower ''Categories:''
         \<and> \<not> sublist (lower ''Categories:'') (lower (pre @ butlast lab))
         \<and> \<not> has_err_tag (pre @ lab @ after) \<longrightarrow>
          categories (parse_categorization (Some (pre @ lab @ after)))
            = strip (takeWhile (\<lambda>c. c \<noteq> newline) (dropWhile is_space after))
        \<and> categories (parse_categorization_legacy (Some (pre @ lab @ after)))
            = strip (takeWhile (\<lambda>c. c \<noteq> newline) (dropWhile is_space after))"
    using parse_labelled [of lab "''Categories:''" pre after] by simp
  have m1: "\<not> sublist (lower ''Sentiment:'') (lower r) \<longrightarrow>
          sentiment (parse_categorization (Some r)) = ''N/A''
        \<and> sentiment (parse_categorization_legacy (Some r)) = ''N/A''"
    by (simp add: parse_categorization_def parse_categorization_legacy_def
        field_of_missing legacy_field_missing)
  have m2: "\<not> sublist (lower ''Topics:'') (lower r) \<longrightarrow>
          topics (parse_categorization (Some r)) = ''N/A''
        \<and> topics (parse_categorization_legacy (Some r)) = ''N/A''"
    by (simp add: parse_categorization_def parse_categorization_legacy_def
        field_of_missing legacy_field_missing)
  have m3: "\<not> sublist (lower ''Categories:'') (lower r) \<longrightarrow>
          categories (parse_categorization (Some r)) = ''N/A''
        \<and> categories (parse_categorization_legacy (Some r)) = ''N/A''"
    by (simp add: parse_categorization_def parse_categorization_legacy_def
        field_of_missing legacy_field_missing)
  from ex ex_legacy cs cs_legacy f1 f2 f3 m1 m2 m3 show ?thesis
    by (intro conjI)
qed

text \<open>
  The statement at a \<open>TOPICS:\<close> label in capitals in the middle of a line, at a lower-case
  \<open>sentiment:\<close> label that opens the response, at a \<open>CATEGORIES:\<close> label whose value
  stands on the next line, at a response without a \<open>Topics:\<close> label and at a response
  without any label.
\<close>

theorem C2_parse_categorization_witness:
  "lower ''TOPICS:'' = lower ''Topics:''
   \<and> \<not> sublist (lower ''Topics:'') (lower (''Mood ok, '' @ butlast ''TOPICS:''))
   \<and> \<not> has_err_tag (''Mood ok, '' @ ''TOPICS:'' @ ''  Work '' @ [newline] @ ''more'')
   \<and> topics (parse_categorization (Some (''Mood ok, '' @ ''TOPICS:'' @ ''  Work '' @ [newline] @ ''more''))) = ''Work''
   \<and> topics (parse_categorization_legacy (Some (''Mood ok, '' @ ''TOPICS:'' @ ''  Work '' @ [newline] @ ''more''))) = ''Work''
   \<and> lower ''sentiment:'' = lower ''Sentiment:''
   \<and> \<not> sublist (lower ''Sentiment:'') (lower ([] @ butlast ''sentiment:''))
   \<and> \<not> has_err_tag ([] @ ''sentiment:'' @ ''Calm'')
   \<and> sentiment (parse_categorization (Some ([] @ ''sentiment:'' @ ''Calm''))) = ''Calm''
   \<and> sentiment (parse_categorization_legacy (Some ([] @ ''sentiment:'' @ ''Calm''))) = ''Calm''
   \<and> lower ''CATEGORIES:'' = lower ''Categories:''
   \<and> \<not> sublist (lower ''Categories:'') (lower (''Note. '' @ butlast ''CATEGORIES:''))
   \<and> \<not> has_err_tag (''Note. '' @ ''CATEGORIES:'' @ [newline] @ ''Home, Work'')
   \<and> categories (parse_categorization (Some (''Note. '' @ ''CATEGORIES:'' @ [newline] @ ''Home, Work''))) = ''Home, Work''
   \<and> categories (parse_categorization_legacy (Some (''Note. '' @ ''CATEGORIES:'' @ [newline] @ ''Home, Work''))) = ''Home, Work''
   \<and> \<not> sublist (lower ''Topics:'') (lower (''Sentiment: Hopeful'' @ [newline] @ ''Categories: Workplace''))
   \<and> topics (parse_categorization (Some (''Sentiment: Hopeful'' @ [newline] @ ''Categories: Workplace''))) = ''N/A''
   \<and> topics (parse_categorization_legacy (Some (''Sentiment: Hopeful'' @ [newline] @ ''Categories: Workplace''))) = ''N/A''
   \<and> \<not> sublist (lower ''Sentiment:'') (lower ''no labels here'')
   \<and> \<not> sublist (lower ''Categories:'') (lower ''no labels here'')
   \<and> sentiment (parse_categorization (Some ''no labels here'')) = ''N/A''
   \<and> sentiment (parse_categorization_legacy (Some ''no labels here'')) = ''N/A''
   \<and> categories (parse_categorization (Some ''no labels here'')) = ''N/A''
   \<and> categories (parse_categorization_legacy (Some ''no labels here'')) = ''N/A''"
proof -
  have t1: "lower ''TOPICS:'' = lower ''Topics:''"
    and t2: "\<not> sublist (lower ''Topics:'') (lower (''Mood ok, '' @ butlast ''TOPICS:''))"
    and t3: "\<not> has_err_tag (''Mood ok, '' @ ''TOPICS:'' @ ''  Work '' @ [newline] @ ''more'')"
    and vt: "strip (takeWhile (\<lambda>c. c \<noteq> newline) (dropWhile is_space (''  Work '' @ [newline] @ ''more''))) = ''Work''"
    by (simp_all add: lower_def lower_char_def char_eq_chr tag_eval py_eval)
  have s1: "lower ''sentiment:'' = lower ''Sentiment:''"
    and s2: "\<not> sublist (lower ''Sentiment:'') (lower ([] @ butlast ''sentiment:''))"
    and s3: "\<not> has_err_tag ([] @ ''sentiment:'' @ ''Calm'')"
    and vs: "strip (takeWhile (\<lambda>c. c \<noteq> newline) (dropWhile is_space ''Calm'')) = ''Calm''"
    by (simp_all add: lower_def lower_char_def char_eq_chr tag_eval py_eval)
  have c1: "lower ''CATEGORIES:'' = lower ''Categories:''"
    and c2: "\<not> sublist (lower ''Categories:'') (lower (''Note. '' @ butlast ''CATEGORIES:''))"
    and c3: "\<not> has_err_tag (''Note. '' @ ''CATEGORIES:'' @ [newline] @ ''Home, Work'')"
    and vc: "strip (takeWhile (\<lambda>c. c \<noteq> newline) (dropWhile is_space ([newline] @ ''Home, Work''))) = ''Home, Work''"
    by (simp_all add: lower_def lower_char_def char_eq_chr tag_eval py_eval)
  have m1: "\<not> sublist (lower ''Topics:'') (lower (''Sentiment: Hopeful'' @ [newline] @ ''Categories: Workplace''))"
    and m2: "\<not> sublist (lower ''Sentiment:'') (lower ''no labels here'')"
    and m3: "\<not> sublist (lower ''Categories:'') (lower ''no labels here'')"
    by (simp_all add: lower_def lower_char_def char_eq_chr tag_eval py_eval)
  have ft1: "topics (parse_categorization (Some (''Mood ok, '' @ ''TOPICS:'' @ ''  Work '' @ [newline] @ ''more''))) = ''Work''"
    using C2_parse_categorization [where lab = "''TOPICS:''" and pre = "''Mood ok, ''" and after = "''  Work '' @ [newline] @ ''more''",
        THEN conjunct2, THEN conjunct2, THEN conjunct2, THEN conjunct2, THEN conjunct2, THEN conjunct1, THEN mp,
        OF conjI [OF t1 conjI [OF t2 t3]]]
    unfolding vt by (rule conjunct1)
  have ft2: "topics (parse_categorization_legacy (Some (''Mood ok, '' @ ''TOPICS:'' @ ''  Work '' @ [newline] @ ''more''))) = ''Work''"
    using C2_parse_categorization [where lab = "''TOPICS:''" and pre = "''Mood ok, ''" and after = "''  Work '' @ [newline] @ ''more''",
        THEN conjunct2, THEN conjunct2, THEN conjunct2, THEN conjunct2, THEN conjunct2, THEN conjunct1, THEN mp,
        OF conjI [OF t1 conjI [OF t2 t3]]]
    unfolding vt by (rule conjunct2)
  have fs1: "sentiment (parse_categorization (Some ([] @ ''sentiment:'' @ ''Calm''))) = ''Calm''"
    using C2_parse_categorization [where lab = "''sentiment:''" and pre = "[]" and after = "''Calm''",
        THEN conjunct2, THEN conjunct2, THEN conjunct2, THEN conjunct2, THEN conjunct1, THEN mp,
        OF conjI [OF s1 conjI [OF s2 s3]]]
    unfolding vs by (rule conjunct1)
  have fs2: "sentiment (parse_categorization_legacy (Some ([] @ ''sentiment:'' @ ''Calm''))) = ''Calm''"
    using C2_parse_categorization [where lab = "''sentiment:''" and pre = "[]" and after = "''Calm''",
        THEN conjunct2, THEN conjunct2, THEN conjunct2, THEN conjunct2, THEN conjunct1, THEN mp,
        OF conjI [OF s1 conjI [OF s2 s3]]]
    unfolding vs by (rule conjunct2)
  have fc1: "categories (parse_categorization (Some (''Note. '' @ ''CATEGORIES:'' @ [newline] @ ''Home, Work''))) = ''Home, Work''"
    using C2_parse_categorization [where lab = "''CATEGORIES:''" and pre = "''Note. ''" and after = "[newline] @ ''Home, Work''",
        THEN conjunct2, THEN conjunct2, THEN conjunct2, THEN conjunct2, THEN conjunct2, THEN conjunct2, THEN conjunct1, THEN mp,
        OF conjI [OF c1 conjI [OF c2 c3]]]
    unfolding vc by (rule conjunct1)
  have fc2: "categories (parse_categorization_legacy (Some (''Note. '' @ ''CATEGORIES:'' @ [newline] @ ''Home, Work''))) = ''Home, Work''"
    using C2_parse_categorization [where lab = "''CATEGORIES:''" and pre = "''Note. ''" and after = "[newline] @ ''Home, Work''",
        THEN conjunct2, THEN conjunct2, THEN conjunct2, THEN conjunct2, THEN conjunct2, THEN conjunct2, THEN conjunct1, THEN mp,
        OF conjI [OF c1 conjI [OF c2 c3]]]
    unfolding vc by (rule conjunct2)
  have mt1: "topics (parse_categorization (Some (''Sentiment: Hopeful'' @ [newline] @ ''Categories: Workplace''))) = ''N/A''"
    using C2_parse_categorization [where r = "''Sentiment: Hopeful'' @ [newline] @ ''Categories: Workplace''",
        THEN conjunct2, THEN conjunct2, THEN conjunct2, THEN conjunct2, THEN conjunct2, THEN conjunct2, THEN conjunct2, THEN conjunct2, THEN conjunct1, THEN mp, OF m1]
    by (rule conjunct1)
  have mt2: "topics (parse_categorization_legacy (Some (''Sentiment: Hopeful'' @ [newline] @ ''Categories: Workplace''))) = ''N/A''"
    using C2_parse_categorization [where r = "''Sentiment: Hopeful'' @ [newline] @ ''Categories: Workplace''",
        THEN conjunct2, THEN conjunct2, THEN conjunct2, THEN conjunct2, THEN conjunct2, THEN conjunct2, THEN conjunct2, THEN conjunct2, THEN conjunct1, THEN mp, OF m1]
    by (rule conjunct2)
  have ms1: "sentiment (parse_categorization (Some ''no labels here'')) = ''N/A''"
    using C2_parse_categorization [where r = "''no labels here''",
        THEN conjunct2, THEN conjunct2, THEN conjunct2, THEN conjunct2, THEN conjunct2, THEN conjunct2, THEN conjunct2, THEN conjunct1, THEN mp, OF m2]
    by (rule conjunct1)
  have ms2: "sentiment (parse_categorization_legacy (Some ''no labels here'')) = ''N/A''"
    using C2_parse_categorization [where r = "''no labels here''",
        THEN conjunct2, THEN conjunct2, THEN conjunct2, THEN conjunct2, THEN conjunct2, THEN conjunct2, THEN conjunct2, THEN conjunct1, THEN mp, OF m2]
    by (rule conjunct2)
  have mc1: "categories (parse_categorization (Some ''no labels here'')) = ''N/A''"
    using C2_parse_categorization [where r = "''no labels here''",
        THEN conjunct2, THEN conjunct2, THEN conjunct2, THEN conjunct2, THEN conjunct2, THEN conjunct2, THEN conjunct2, THEN conjunct2, THEN conjunct2, THEN mp, OF m3]
    by (rule conjunct1)
  have mc2: "categories (parse_categorization_legacy (Some ''no labels here'')) = ''N/A''"
    using C2_parse_categorization [where r = "''no labels here''",
        THEN conjunct2, THEN conjunct2, THEN conjunct2, THEN conjunct2, THEN conjunct2, THEN conjunct2, THEN conjunct2, THEN conjunct2, THEN conjunct2, THEN mp, OF m3]
    by (rule conjunct2)
  from t1 t2 t3 ft1 ft2 s1 s2 s3 fs1 fs2 c1 c2 c3 fc1 fc2 m1 mt1 mt2 m2 m3 ms1 ms2 mc1 mc2
  show ?thesis
    by (intro conjI)
qed

text \<open>
  Claim C2 as worded, refuted: in the response
  \<open>Sentiment: ok, see topics: below / Categories: Work\<close> (two lines) no line begins with
  the label \<open>Topics:\<close> in any case, even after leading white space, so the \<open>Topics:\<close> line
  is missing entirely; yet the topics field is \<open>below\<close>, not \<open>N/A\<close>, in both scripts,
  because the search takes the label from inside the sentiment line.
\<close>

theorem C2_label_inside_another_line:
  "list_all (\<lambda>l. \<not> prefix (lower ''Topics:'') (lower (lstrip l)))
     (split_on newline (''Sentiment: ok, see topics: below'' @ [newline] @ ''Categories: Work''))
   \<and> topics (parse_categorization
        (Some (''Sentiment: ok, see topics: below'' @ [newline] @ ''Categories: Work'')))
        = ''below''
   \<and> topics (parse_categorization_legacy
        (Some (''Sentiment: ok, see topics: below'' @ [newline] @ ''Categories: Work'')))
        = ''below''"
  by (simp add: parse_categorization_def parse_categorization_legacy_def categorize_eval
      tag_eval py_eval lower_def lower_char_def char_eq_chr)

section \<open>Properties of the diagram labels\<close>

lemmas label_eval = sanitize_label_def processed_topic_def replace_def

lemma sanitize_label_clean: "set (sanitize_label t) \<inter> {CHR ''-'', CHR '' '', CHR 0x27, CHR 0x60, dquote} = {}"
proof -
  let ?a = "replace CHR ''-'' ''_'' (strip t)"
  let ?b = "replace CHR '' '' ''_'' ?a"
  let ?c = "replace CHR 0x27 [] ?b"
  let ?d = "replace CHR 0x60 [] ?c"
  have a: "CHR ''-'' \<notin> set ?a"
    using set_replace [of "CHR ''-''" "''_''" "strip t"] by auto
  have b: "CHR ''-'' \<notin> set ?b" "CHR '' '' \<notin> set ?b"
    using a set_replace [of "CHR '' ''" "''_''" ?a] by auto
  have c: "CHR ''-'' \<notin> set ?c" "CHR '' '' \<notin> set ?c" "CHR 0x27 \<notin> set ?c"
    using b by (simp_all add: set_replace_empty)
  have d: "CHR ''-'' \<notin> set ?d" "CHR '' '' \<notin> set ?d" "CHR 0x27 \<notin> set ?d"
          "CHR 0x60 \<notin> set ?d"
    using c by (simp_all add: set_replace_empty)
  show ?thesis
    using d by (simp add: sanitize_label_def set_replace_empty)
qed

lemma sanitize_label_twice: "sanitize_label (sanitize_label t) = strip (sanitize_label t)"
proof -
  let ?u = "sanitize_label t"
  have "set (strip ?u) \<inter> {CHR ''-'', CHR '' '', CHR 0x27, CHR 0x60, dquote} = {}"
    using sanitize_label_clean [of t] set_strip [of ?u] by blast
  then have n: "CHR ''-'' \<notin> set (strip ?u)" "CHR '' '' \<notin> set (strip ?u)"
      "CHR 0x27 \<notin> set (strip ?u)" "CHR 0x60 \<notin> set (strip ?u)" "dquote \<notin> set (strip ?u)"
    by auto
  show ?thesis
    by (subst sanitize_label_def) (simp add: replace_absent n)
qed

lemma sanitize_label_no_space:
  assumes "\<forall>c \<in> set t. is_space c \<longrightarrow> c = CHR '' ''"
  shows "\<forall>c \<in> set (sanitize_label t). \<not> is_space c"
proof -
  let ?a = "replace CHR ''-'' ''_'' (strip t)"
  let ?b = "replace CHR '' '' ''_'' ?a"
  have u: "\<not> is_space CHR ''_''"
    by (simp add: is_space_def)
  have s: "\<forall>c \<in> set (strip t). is_space c \<longrightarrow> c = CHR '' ''"
    using assms set_strip [of t] by blast
  have a: "\<forall>c \<in> set ?a. is_space c \<longrightarrow> c = CHR '' ''"
    using s u set_replace [of "CHR ''-''" "''_''" "strip t"] by auto
  have b: "\<forall>c \<in> set ?b. \<not> is_space c"
    using a u set_replace [of "CHR '' ''" "''_''" ?a] by auto
  show ?thesis
    using b by (simp add: sanitize_label_def set_replace_empty)
qed

text \<open>
  Claim C3, as the code has it.  The sanitization of line 753 is a total function; its
  result holds no hyphen, no space, no single quote, no backtick and no double quote
  (double quotes are removed, not escaped).  Sanitizing a second time only strips the
  first result again, so the two agree whenever the first result neither starts nor ends
  with white space: in particular for every input whose only white space is the space
  character, such as the topic of the specification.
\<close>

theorem C3_sanitize_label:
  fixes t :: string
  shows
  \<open>set (sanitize_label t) \<inter> {CHR ''-'', CHR '' '', CHR 0x27, CHR 0x60, dquote} = {}
   \<and> sanitize_label (sanitize_label t) = strip (sanitize_label t)
   \<and> ((\<forall>c \<in> set t. is_space c \<longrightarrow> c = CHR '' '') \<longrightarrow>
         sanitize_label (sanitize_label t) = sanitize_label t)
   \<and> sanitize_label ''Test "Topic" - for 'project' & `code`''
        = ''Test_Topic___for_project_&_code''\<close>
proof (intro conjI impI)
  show "set (sanitize_label t) \<inter> {CHR ''-'', CHR '' '', CHR 0x27, CHR 0x60, dquote} = {}"
    by (rule sanitize_label_clean)
  show "sanitize_label (sanitize_label t) = strip (sanitize_label t)"
    by (rule sanitize_label_twice)
  show \<open>sanitize_label ''Test "Topic" - for 'project' & `code`''
        = ''Test_Topic___for_project_&_code''\<close>
    by (simp add: label_eval py_eval)
next
  assume "\<forall>c \<in> set t. is_space c \<longrightarrow> c = CHR '' ''"
  then have "strip (sanitize_label t) = sanitize_label t"
    by (intro strip_no_space sanitize_label_no_space)
  then show "sanitize_label (sanitize_label t) = sanitize_label t"
    by (simp add: sanitize_label_twice)
qed

text \<open>The statement at the topic of the specification.\<close>

theorem C3_sanitize_label_witness:
  \<open>sanitize_label (sanitize_label ''Test "Topic" - for 'project' & `code`'')
        = ''Test_Topic___for_project_&_code''
   \<and> set ''Test_Topic___for_project_&_code''
        \<inter> {CHR ''-'', CHR '' '', CHR 0x27, CHR 0x60, dquote} = {}\<close>
proof -
  have h: \<open>\<forall>c \<in> set ''Test "Topic" - for 'project' & `code`''. is_space c \<longrightarrow> c = CHR '' ''\<close>
    by (simp add: is_space_def)
  have e: \<open>sanitize_label ''Test "Topic" - for 'project' & `code`''
             = ''Test_Topic___for_project_&_code''\<close>
    by (simp add: label_eval py_eval)
  note t = C3_sanitize_label [of \<open>''Test "Topic" - for 'project' & `code`''\<close>]
  from t h have i: \<open>sanitize_label (sanitize_label ''Test "Topic" - for 'project' & `code`'')
                     = sanitize_label ''Test "Topic" - for 'project' & `code`''\<close>
    by blast
  from t have c: \<open>set (sanitize_label ''Test "Topic" - for 'project' & `code`'')
                    \<inter> {CHR ''-'', CHR '' '', CHR 0x27, CHR 0x60, dquote} = {}\<close>
    by blast
  show ?thesis
    using i c unfolding e by blast
qed

text \<open>
  Claim C3 as it is written asks for idempotence on every input.  A tab behind a leading
  single quote survives the first pass and is stripped by the second.  The replica in
  test_topic_escaping.py is not idempotent either: it escapes a double quote once more
  on every pass.
\<close>

theorem C3_not_idempotent:
  \<open>sanitize_label (sanitize_label [CHR 0x27, tab, CHR ''x''])
     \<noteq> sanitize_label [CHR 0x27, tab, CHR ''x'']
   \<and> processed_topic (processed_topic ''a"b'') \<noteq> processed_topic ''a"b''\<close>
  by (simp add: label_eval py_eval)

lemmas node_eval = topic_node_def category_node_def keeps_def test_keeps_def
  topics_dot_str_def categories_dot_str_def final_topics_dot_str_def
  generate_topic_dot_string_def str_nat.simps

text \<open>
  Claim C4 at the topics text \<open>Work, N/A\<close>.  The second element is \<open>N/A\<close> behind a
  space; it equals \<open>N/A\<close> after trimming, yet lines 753 and 754 compare the element
  before trimming and give it a node labelled \<open>N/A\<close>.  The loop of
  test_topic_escaping.py compares after trimming and leaves the element out.
\<close>

theorem C4_padded_na_kept:
  \<open>strip '' N/A'' = ''N/A''
   \<and> topics_dot_str ''Work, N/A''
       = ''topic0 [label="Topic: Work", fillcolor="lightgreen"]; main -> topic0; ''
         @ ''topic1 [label="Topic: N/A", fillcolor="lightgreen"]; main -> topic1;''
   \<and> categories_dot_str ''Workplace, N/A''
       = ''cat0 [label="Category: Workplace", fillcolor="lightcoral"]; main -> cat0; ''
         @ ''cat1 [label="Category: N/A", fillcolor="lightcoral"]; main -> cat1;''
   \<and> final_topics_dot_str ''Work, N/A''
       = ''topic0 [label="Topic: Work", fillcolor="lightgreen"]; main -> topic0;''\<close>
  by (simp add: node_eval label_eval py_eval)

section \<open>Properties of the analysis step\<close>

lemmas analysis_eval = analysis_step_def dot_match_def split_head_def find_plus_3_def
  analysis_of_candidate_def DOT_START_def DOT_END_def

lemma sublist_analysis_of_candidate: "sublist (analysis_of_candidate c) c"
proof -
  have "sublist (strip (drop n c)) c" for n
    using sublist_strip [of "drop n c"] sublist_drop [of n c]
    by (meson sublist_order.order_trans)
  then show ?thesis
    by (simp add: analysis_of_candidate_def Let_def sublist_strip)
qed

lemma dot_match_found:
  assumes "\<not> sublist DOT_START (pre @ butlast DOT_START)"
      and "\<not> sublist DOT_END (mid @ butlast DOT_END)"
  shows "dot_match (pre @ DOT_START @ mid @ DOT_END @ post) = Some mid"
    and "split_head DOT_START (pre @ DOT_START @ mid @ DOT_END @ post) = pre"
proof -
  have s: "DOT_START \<noteq> []" and e: "DOT_END \<noteq> []"
    by (simp_all add: DOT_START_def DOT_END_def)
  have 1: "split_first DOT_START (pre @ DOT_START @ mid @ DOT_END @ post)
             = Some (pre, mid @ DOT_END @ post)"
    by (rule split_first_leftmost [OF s assms(1)])
  have 2: "split_first DOT_END (mid @ DOT_END @ post) = Some (mid, post)"
    by (rule split_first_leftmost [OF e assms(2)])
  show "dot_match (pre @ DOT_START @ mid @ DOT_END @ post) = Some mid"
    by (simp add: dot_match_def 1 2)
  show "split_head DOT_START (pre @ DOT_START @ mid @ DOT_END @ post) = pre"
    by (simp add: split_head_def 1)
qed

lemma dot_match_none:
  assumes "\<not> sublist DOT_START s \<or> \<not> sublist DOT_END s"
  shows "dot_match s = None"
proof (cases "split_first DOT_START s")
  case None
  then show ?thesis by (simp add: dot_match_def)
next
  case (Some p)
  obtain pre rest where p: "p = (pre, rest)" by (cases p)
  have s: "s = (pre @ DOT_START) @ rest"
    using Some p split_first_SomeD by simp
  have st: "sublist DOT_START s"
    unfolding s by simp
  have r: "sublist rest s"
    unfolding s by (rule sublist_append_leftI)
  have "\<not> sublist DOT_END s"
    using assms st by blast
  then have "\<not> sublist DOT_END rest"
    using r by (meson sublist_order.order_trans)
  then have "split_first DOT_END rest = None"
    by (simp add: split_first_None_iff)
  then show ?thesis
    by (simp add: dot_match_def Some p)
qed

lemmas legacy_eval = analysis_step_legacy_def marker_at_def drop_prefix_def drop_prefix_ci_def

lemma drop_prefix_sublist: "drop_prefix p s = Some r \<Longrightarrow> sublist r s"
  by (auto simp: drop_prefix_def split: if_splits)

lemma drop_prefix_ci_sublist: "drop_prefix_ci p s = Some r \<Longrightarrow> sublist r s"
  by (auto simp: drop_prefix_ci_def split: if_splits)

lemma marker_at_sublist:
  assumes "marker_at word s = Some rest"
  shows "sublist (lower word) (lower s)"
proof -
  from assms obtain s1 where s1: "drop_prefix ''---'' s = Some s1"
    and m: "drop_prefix_ci word (dropWhile is_space s1) \<noteq> None"
    by (auto simp: marker_at_def split: option.splits)
  have "prefix (lower word) (lower (dropWhile is_space s1))"
    using m by (simp add: drop_prefix_ci_def split: if_splits)
  then have a: "sublist (lower word) (lower (dropWhile is_space s1))"
    by (rule prefix_imp_sublist)
  have "sublist s1 s"
    using s1 by (rule drop_prefix_sublist)
  then have "sublist (dropWhile is_space s1) s"
    using sublist_dropWhile [of is_space s1]
    by (meson sublist_order.order_trans)
  then have "sublist (lower (dropWhile is_space s1)) (lower s)"
    unfolding lower_def by (rule map_mono_sublist)
  with a show ?thesis
    by (meson sublist_order.order_trans)
qed

lemma first_marker_sublist:
  "first_marker word s = Some p \<Longrightarrow> sublist (lower word) (lower s)"
proof (induction s arbitrary: p)
  case Nil
  then show ?case by simp
next
  case (Cons c cs)
  show ?case
  proof (cases "marker_at word (c # cs)")
    case (Some rest)
    then show ?thesis by (rule marker_at_sublist)
  next
    case None
    with Cons.prems obtain q where "first_marker word cs = Some q"
      by (auto split: option.splits)
    then have "sublist (lower word) (lower cs)"
      by (rule Cons.IH)
    then show ?thesis
      by (simp add: lower_def sublist_Cons_right)
  qed
qed

lemma last_marker_sublist:
  "last_marker word s = Some p \<Longrightarrow> sublist (lower word) (lower s)"
proof (induction s arbitrary: p)
  case Nil
  then show ?case by simp
next
  case (Cons c cs)
  show ?case
  proof (cases "last_marker word cs")
    case (Some q)
    then have "sublist (lower word) (lower cs)"
      by (rule Cons.IH)
    then show ?thesis
      by (simp add: lower_def sublist_Cons_right)
  next
    case None
    with Cons.prems obtain rest where "marker_at word (c # cs) = Some rest"
      by (auto split: option.splits)
    then show ?thesis by (rule marker_at_sublist)
  qed
qed

lemma first_marker_rest:
  "first_marker word s = Some (pre, rest) \<Longrightarrow> sublist rest s"
proof (induction s arbitrary: pre)
  case Nil
  then show ?case by simp
next
  case (Cons c cs)
  show ?case
  proof (cases "marker_at word (c # cs)")
    case (Some r)
    with Cons.prems have "rest = r" by simp
    obtain s1 s2 where 1: "drop_prefix ''---'' (c # cs) = Some s1"
      and 2: "drop_prefix_ci word (dropWhile is_space s1) = Some s2"
      and 3: "drop_prefix ''---'' (dropWhile is_space s2) = Some r"
      using Some by (auto simp: marker_at_def split: option.splits)
    have a: "sublist s1 (c # cs)"
      using 1 by (rule drop_prefix_sublist)
    have b: "sublist s2 (dropWhile is_space s1)"
      using 2 by (rule drop_prefix_ci_sublist)
    have c: "sublist r (dropWhile is_space s2)"
      using 3 by (rule drop_prefix_sublist)
    show ?thesis
      unfolding \<open>rest = r\<close>
      using a b c sublist_dropWhile [of is_space s1] sublist_dropWhile [of is_space s2]
      by (meson sublist_order.order_trans)
  next
    case None
    with Cons.prems obtain pre' where "first_marker word cs = Some (pre', rest)"
      by (auto split: option.splits)
    then have "sublist rest cs" by (rule Cons.IH)
    then show ?thesis by (simp add: sublist_Cons_right)
  qed
qed

lemma analysis_step_legacy_no_marker:
  assumes "s \<noteq> []" "\<not> sublist ''[BLOCKED:'' s" "\<not> sublist ''[API ERROR:'' s"
    and "\<not> sublist (lower ''DOT START'') (lower s) \<or> \<not> sublist (lower ''DOT END'') (lower s)"
  shows "analysis_step_legacy (Some s) = (s, None)"
proof (cases "first_marker ''DOT START'' s")
  case None
  then show ?thesis using assms by (simp add: analysis_step_legacy_def)
next
  case (Some p)
  obtain pre rest where p: "p = (pre, rest)" by (cases p)
  have "sublist (lower ''DOT START'') (lower s)"
    using Some by (rule first_marker_sublist)
  then have n: "\<not> sublist (lower ''DOT END'') (lower s)"
    using assms(4) by blast
  have "sublist rest s"
    using Some p first_marker_rest by simp
  then have "sublist (lower rest) (lower s)"
    unfolding lower_def by (rule map_mono_sublist)
  then have "\<not> sublist (lower ''DOT END'') (lower rest)"
    using n by (meson sublist_order.order_trans)
  then have "last_marker ''DOT END'' rest = None"
    using last_marker_sublist [of "''DOT END''" rest] by (cases "last_marker ''DOT END'' rest") auto
  then show ?thesis
    using assms Some p by (simp add: analysis_step_legacy_def)
qed

text \<open>
  What lines 767 to 796 compute from a response.  Take a response that is not empty and
  carries no error tag.  If it reads \<open>pre\<close>, start marker, \<open>mid\<close>, end marker, \<open>post\<close>,
  where the start marker is the first one of the response and the end marker the first
  one after it, then the diagram description is \<open>mid\<close> stripped of white space and the
  analysis is computed from \<open>pre\<close> alone.  If one of the two markers does not occur at
  all, the whole response is the analysis and there is no diagram.  In the older
  multimode_bot_final.py a response in which \<open>DOT START\<close> or \<open>DOT END\<close> occurs in no
  letter case is the analysis as a whole, without a diagram.
\<close>

lemma analysis_step_markers:
  fixes pre mid post s :: string
  shows
   "(\<not> has_err_tag (pre @ DOT_START @ mid @ DOT_END @ post)
       \<and> \<not> sublist DOT_START (pre @ butlast DOT_START)
       \<and> \<not> sublist DOT_END (mid @ butlast DOT_END) \<longrightarrow>
         analysis_step (Some (pre @ DOT_START @ mid @ DOT_END @ post))
           = (analysis_of_candidate pre, Some (strip mid))
       \<and> sublist (analysis_of_candidate pre) pre
       \<and> \<not> sublist DOT_START (analysis_of_candidate pre))
  \<and> (s \<noteq> [] \<and> \<not> has_err_tag s \<and> (\<not> sublist DOT_START s \<or> \<not> sublist DOT_END s) \<longrightarrow>
         analysis_step (Some s) = (s, None))
  \<and> analysis_step
       (Some (''intro text'' @ [newline] @ ''--- DOT START ---'' @ [newline] @ ''digraph{a->b}''
              @ [newline] @ ''--- DOT END ---'' @ [newline] @ ''trailer''))
       = (''intro text'', Some ''digraph{a->b}'')
  \<and> (s \<noteq> [] \<and> \<not> has_err_tag s
       \<and> (\<not> sublist (lower ''DOT START'') (lower s) \<or> \<not> sublist (lower ''DOT END'') (lower s)) \<longrightarrow>
         analysis_step_legacy (Some s) = (s, None))
  \<and> analysis_step_legacy
       (Some (''intro text'' @ [newline] @ ''--- DOT START ---'' @ [newline] @ ''digraph{a->b}''
              @ [newline] @ ''--- DOT END ---'' @ [newline] @ ''trailer''))
       = (''intro text'' @ [newline, newline] @ ''trailer'', Some ''digraph{a->b}'')"
proof (intro conjI impI)
  assume a: "\<not> has_err_tag (pre @ DOT_START @ mid @ DOT_END @ post)
       \<and> \<not> sublist DOT_START (pre @ butlast DOT_START)
       \<and> \<not> sublist DOT_END (mid @ butlast DOT_END)"
  have ne: "pre @ DOT_START @ mid @ DOT_END @ post \<noteq> []"
    by (simp add: DOT_START_def)
  show "analysis_step (Some (pre @ DOT_START @ mid @ DOT_END @ post))
           = (analysis_of_candidate pre, Some (strip mid))"
    using a ne dot_match_found [of pre mid post]
    by (simp add: analysis_step_def)
  show c: "sublist (analysis_of_candidate pre) pre"
    by (rule sublist_analysis_of_candidate)
  have "\<not> sublist DOT_START pre"
    using a by (meson sublist_append_rightI sublist_order.order_trans)
  then show "\<not> sublist DOT_START (analysis_of_candidate pre)"
    using c by (meson sublist_order.order_trans)
next
  assume "s \<noteq> [] \<and> \<not> has_err_tag s \<and> (\<not> sublist DOT_START s \<or> \<not> sublist DOT_END s)"
  then show "analysis_step (Some s) = (s, None)"
    using dot_match_none [of s] by (simp add: analysis_step_def)
next
  show "analysis_step
       (Some (''intro text'' @ [newline] @ ''--- DOT START ---'' @ [newline] @ ''digraph{a->b}''
              @ [newline] @ ''--- DOT END ---'' @ [newline] @ ''trailer''))
       = (''intro text'', Some ''digraph{a->b}'')"
    by (simp add: analysis_eval tag_eval py_eval)
next
  assume a: "s \<noteq> [] \<and> \<not> has_err_tag s
       \<and> (\<not> sublist (lower ''DOT START'') (lower s) \<or> \<not> sublist (lower ''DOT END'') (lower s))"
  then have "\<not> sublist ''[BLOCKED:'' s" and "\<not> sublist ''[API ERROR:'' s"
    by (simp_all add: has_err_tag_def err_tags_def)
  with a show "analysis_step_legacy (Some s) = (s, None)"
    by (intro analysis_step_legacy_no_marker) simp_all
next
  show "analysis_step_legacy
       (Some (''intro text'' @ [newline] @ ''--- DOT START ---'' @ [newline] @ ''digraph{a->b}''
              @ [newline] @ ''--- DOT END ---'' @ [newline] @ ''trailer''))
       = (''intro text'' @ [newline, newline] @ ''trailer'', Some ''digraph{a->b}'')"
    by (simp add: legacy_eval tag_eval py_eval)
qed

text \<open>
  \<open>str_format\<close> on a template whose braces are well formed.
\<close>

lemma str_format_example:
  "str_format ''Hi {name}, {{x}} [a] {b[{]}!'' [(''name'', ''Bob''), (''b[{]'', ''you'')]
     = Inr ''Hi Bob, {x} [a] you!''"
  by (simp add: str_format_def)

text \<open>
  The template of line 722 does not format: after \<open>digraph JournalMap\<close> its braces are
  single, and the field opened there runs into the \<open>{\<close> of \<open>{topics_dot}\<close>.
\<close>

lemma therapist_analysis_prompt_raises:
  "therapist_analysis_prompt display_name current_entry_summary history_context
       text_summary sentiment_text topics_dot categories_dot
     = Inl (ValueError ''unexpected '{' in field name'')"
  by code_simp

text \<open>
  Claim C1.  In New_Main.py the reflective-analysis step extracts nothing: formatting the
  prompt at line 756 raises \<open>ValueError\<close> for every journal entry, whatever the seven
  arguments are, so \<open>handle_journal_logic\<close> is left before the model is asked and lines
  766 to 796 are not run, whatever the model would have answered; no analysis text and
  no diagram description come out of it.  The cause is the template and not the call:
  the same \<open>format\<close> on a template that doubles the braces of its diagram returns the
  text with the fields filled in.  The older multimode_bot_final.py gives, on the
  example response of the specification, the diagram description \<open>digraph{a->b}\<close> and an
  analysis text without the marker lines and what is between them.
\<close>

theorem C1_analysis_prompt_raises:
  "therapist_analysis_prompt display_name current_entry_summary history_context
       text_summary sentiment_text topics_dot categories_dot
     = Inl (ValueError ''unexpected '{' in field name'')
   \<and> reflective_analysis gemini display_name current_entry_summary history_context
       text_summary sentiment_text topics_dot categories_dot
     = Inl (ValueError ''unexpected '{' in field name'')
   \<and> str_format ''{display_name}: digraph JournalMap {{ main [shape=box]; {topics_dot} }}''
       [(''display_name'', ''Bob''), (''topics_dot'', ''main -> topic0;'')]
     = Inr ''Bob: digraph JournalMap { main [shape=box]; main -> topic0; }''
   \<and> analysis_step_legacy
       (Some (''intro text'' @ [newline] @ ''--- DOT START ---'' @ [newline] @ ''digraph{a->b}''
              @ [newline] @ ''--- DOT END ---'' @ [newline] @ ''trailer''))
       = (''intro text'' @ [newline, newline] @ ''trailer'', Some ''digraph{a->b}'')"
proof (intro conjI)
  show "str_format ''{display_name}: digraph JournalMap {{ main [shape=box]; {topics_dot} }}''
       [(''display_name'', ''Bob''), (''topics_dot'', ''main -> topic0;'')]
     = Inr ''Bob: digraph JournalMap { main [shape=box]; main -> topic0; }''"
    by (simp add: str_format_def)
  show "therapist_analysis_prompt display_name current_entry_summary history_context
       text_summary sentiment_text topics_dot categories_dot
     = Inl (ValueError ''unexpected '{' in field name'')"
    by (rule therapist_analysis_prompt_raises)
  then show "reflective_analysis gemini display_name current_entry_summary history_context
       text_summary sentiment_text topics_dot categories_dot
     = Inl (ValueError ''unexpected '{' in field name'')"
    by (simp add: reflective_analysis_def)
  show "analysis_step_legacy
       (Some (''intro text'' @ [newline] @ ''--- DOT START ---'' @ [newline] @ ''digraph{a->b}''
              @ [newline] @ ''--- DOT END ---'' @ [newline] @ ''trailer''))
       = (''intro text'' @ [newline, newline] @ ''trailer'', Some ''digraph{a->b}'')"
    by (simp add: legacy_eval tag_eval py_eval)
qed

section \<open>Properties of the input normalizer\<close>

lemmas voice_eval = voice_branch_def image_branch_def get_text_from_input_def
  add_punctuation_with_gemini_def handle_input_def chunks.simps

text \<open>
  What the guard of the voice branch does: a missing result and a result that holds an
  opening bracket fail the normalization with that message; every other result goes on
  to the enhancement and is returned tagged \<open>audio\<close>.  Each result of the transcription
  other than a transcript holds an opening bracket.
\<close>

lemma voice_branch_guard:
  "voice_branch x g f e None
     = \<lparr>final_text = None, input_type = Some ''audio'',
        error_message = Some (x @ '' Transcription failed (Unknown error).''),
        replies = []\<rparr>"
  "sublist ''['' r \<Longrightarrow>
     voice_branch x g f e (Some r)
       = \<lparr>final_text = None, input_type = Some ''audio'', error_message = Some r, replies = []\<rparr>"
  "\<not> sublist ''['' r \<Longrightarrow>
     final_text (voice_branch x g f e (Some r)) = Some (add_punctuation_with_gemini g f r)
     \<and> input_type (voice_branch x g f e (Some r)) = Some ''audio''
     \<and> error_message (voice_branch x g f e (Some r)) = None"
  by (auto simp: voice_branch_def Let_def)

lemma transcription_markers_fail:
  "transcribe_audio_with_gemini c = Some r \<Longrightarrow>
     (case c of Text t \<Rightarrow> r = strip t | _ \<Rightarrow> sublist ''['' r)"
  by (cases c) (auto simp: sublist_code)

text \<open>
  Claim C5 at a voice clip whose transcript is empty.  The guard tests for \<open>None\<close> and
  for an opening bracket, not for the empty string: the normalization does not fail, the
  empty text is returned tagged \<open>audio\<close> without an error message, and \<open>handle_input\<close>
  hands it to the mode handler.  The image branch beside it rejects an empty result.
\<close>

theorem C5_empty_transcript_passes:
  "transcribe_audio_with_gemini (Text []) = Some []
   \<and> final_text (get_text_from_input cross genai_model formatted_text escape_markdown
        \<lparr>text_input = None, voice_input = Some (Text []), photo_input = None\<rparr>) = Some []
   \<and> input_type (get_text_from_input cross genai_model formatted_text escape_markdown
        \<lparr>text_input = None, voice_input = Some (Text []), photo_input = None\<rparr>) = Some ''audio''
   \<and> error_message (get_text_from_input cross genai_model formatted_text escape_markdown
        \<lparr>text_input = None, voice_input = Some (Text []), photo_input = None\<rparr>) = None
   \<and> handle_input (get_text_from_input cross genai_model formatted_text escape_markdown
        \<lparr>text_input = None, voice_input = Some (Text []), photo_input = None\<rparr>)
       = To_mode_handler [] (Some ''audio'')
   \<and> get_text_from_input cross genai_model formatted_text escape_markdown
        \<lparr>text_input = None, voice_input = None, photo_input = Some (Some [])\<rparr>
       = \<lparr>final_text = None, input_type = Some ''image'',
          error_message = Some ''AI Vision found no text in the image.'', replies = []\<rparr>"
  by (simp add: voice_eval py_eval Let_def)

section \<open>Properties of the token usage counter\<close>

lemmas token_eval = load_token_data_def save_token_data_def initialize_token_data_def
  increment_token_usage_def tokens_command_def setdefault_def default_data_def

text \<open>
  Claim C7, as the code has it.  After the start of the process has zeroed the session
  counter, increments of 10+5, 3+2 and 0+1 tokens stamped with the same day, each saved,
  give a session total of 21 and an all-time total of 21 more than the file held; the
  daily total is 21 more than the count the file held for that same day, and 21 when
  the file held another day.  An increment stamped with another day restarts the daily
  count at its own size.  The day is the one the code is given by \<open>datetime.now()\<close>.
\<close>

theorem C7_token_usage:
  fixes st :: token_state and day day' :: string and p c :: int
  shows
  "(let before = load_token_data (token_file st);
        st0 = initialize_token_data True st;
        st3 = increment_token_usage True day 0 1
                (increment_token_usage True day 3 2
                  (increment_token_usage True day 10 5 st0));
        same_day = (if daily_date before = day then daily_count before else 0)
    in cache_session st0 = 0
     \<and> fst (tokens_command True day st3) = (21, same_day + 21, total before + 21)
     \<and> load_token_data (token_file st3)
         = \<lparr>total = total before + 21, daily_date = day, daily_count = same_day + 21,
            session = 21\<rparr>
     \<and> (day' \<noteq> day \<longrightarrow>
          fst (tokens_command True day' (increment_token_usage True day' p c st3))
            = (21 + (p + c), p + c, total before + 21 + (p + c))))"
  by (cases "token_file st") (simp_all add: token_eval Let_def)

text \<open>
  The statement for a file left by the day before, with a fourth increment of 4+6 tokens
  on the day after.
\<close>

theorem C7_token_usage_witness:
  "fst (tokens_command True ''2024-05-02''
     (increment_token_usage True ''2024-05-02'' 0 1
       (increment_token_usage True ''2024-05-02'' 3 2
         (increment_token_usage True ''2024-05-02'' 10 5
           (initialize_token_data True
              \<lparr>token_file = Holds \<lparr>json_total = Some 100,
                                   json_daily = Some (Some ''2024-05-01'', Some 40),
                                   json_session = Some 7\<rparr>,
               cache_session = 0\<rparr>)))))
     = (21, 21, 121)
   \<and> fst (tokens_command True ''2024-05-03''
     (increment_token_usage True ''2024-05-03'' 4 6
       (increment_token_usage True ''2024-05-02'' 0 1
         (increment_token_usage True ''2024-05-02'' 3 2
           (increment_token_usage True ''2024-05-02'' 10 5
             (initialize_token_data True
                \<lparr>token_file = Holds \<lparr>json_total = Some 100,
                                     json_daily = Some (Some ''2024-05-01'', Some 40),
                                     json_session = Some 7\<rparr>,
                 cache_session = 0\<rparr>))))))
     = (31, 10, 131)"
  using C7_token_usage [of "\<lparr>token_file = Holds \<lparr>json_total = Some 100,
                                     json_daily = Some (Some ''2024-05-01'', Some 40),
                                     json_session = Some 7\<rparr>,
                 cache_session = 0\<rparr>" "''2024-05-02''" "''2024-05-03''" 4 6]
  by (simp add: Let_def load_token_data_def setdefault_def)

text \<open>
  Claim C7 as it is written gives a daily total of 21.  When the process starts on a day
  for which the file already holds a count of 100, the session counter is zeroed but the
  three increments bring the daily total to 121.
\<close>

theorem C7_daily_total_not_21:
  "fst (tokens_command True ''2024-05-02''
     (increment_token_usage True ''2024-05-02'' 0 1
       (increment_token_usage True ''2024-05-02'' 3 2
         (increment_token_usage True ''2024-05-02'' 10 5
           (initialize_token_data True
              \<lparr>token_file = Holds \<lparr>json_total = Some 100,
                                   json_daily = Some (Some ''2024-05-02'', Some 100),
                                   json_session = Some 50\<rparr>,
               cache_session = 0\<rparr>)))))
     = (21, 121, 121)"
  by (simp add: token_eval Let_def)

section \<open>Properties of the users table\<close>

lemmas prefs_eval = update_user_preferences_def current_prefs_of_def sql_update_def
  dict_update_def db_utils_def sqlite_int_def

lemma json_unbound: "''json'' \<notin> set db_utils"
  by (simp add: db_utils_def)

text \<open>
  Claim C9 on every call that supplies \<open>other_prefs\<close>, and on a call for a user whose
  stored preferences are not empty.  db_utils.py uses \<open>json.loads\<close> and \<open>json.dumps\<close>
  but never imports \<open>json\<close>: with a connection and no database error the function
  raises \<open>NameError\<close> instead of returning true or false, and the table is unchanged.
  (For a user id that does not fit 64 bits with sign the first statement raises
  \<open>OverflowError\<close> before that.)
\<close>

theorem C9_update_user_preferences_raises:
  "update_user_preferences db_utils True True now us user_id display_name (Some other_prefs)
     = (us, Inl (if sqlite_int user_id then NameError ''json'' else too_large))
   \<and> update_user_preferences db_utils True True now
        [(1, \<lparr>telegram_username_col = Some ''ann'', display_name_col = Some ''Ann'',
               first_seen_col = 1, last_interaction_col = Some 2,
               preferences_col = Some (Encodes [(''daily_prompt_enabled'', JBool True)])\<rparr>)]
        1 (Some ''Anna'') None
     = ([(1, \<lparr>telegram_username_col = Some ''ann'', display_name_col = Some ''Ann'',
               first_seen_col = 1, last_interaction_col = Some 2,
               preferences_col = Some (Encodes [(''daily_prompt_enabled'', JBool True)])\<rparr>)],
        Inl (NameError ''json''))"
proof
  show "update_user_preferences db_utils True True now us user_id display_name (Some other_prefs)
     = (us, Inl (if sqlite_int user_id then NameError ''json'' else too_large))"
    by (simp add: update_user_preferences_def current_prefs_of_def json_unbound
        split: option.splits prefs_text.splits sum.splits)
  show "update_user_preferences db_utils True True now
        [(1, \<lparr>telegram_username_col = Some ''ann'', display_name_col = Some ''Ann'',
               first_seen_col = 1, last_interaction_col = Some 2,
               preferences_col = Some (Encodes [(''daily_prompt_enabled'', JBool True)])\<rparr>)]
        1 (Some ''Anna'') None
     = ([(1, \<lparr>telegram_username_col = Some ''ann'', display_name_col = Some ''Ann'',
               first_seen_col = 1, last_interaction_col = Some 2,
               preferences_col = Some (Encodes [(''daily_prompt_enabled'', JBool True)])\<rparr>)],
        Inl (NameError ''json''))"
    by (simp add: update_user_preferences_def current_prefs_of_def json_unbound sqlite_int_def)
qed

text \<open>
  Claim C8, as the code has it.  Take a user id that fits 64 bits with sign.  A call of
  \<open>add_user\<close> that reaches the database returns true.  If the user is absent, a row with
  the given username and display name is inserted.  Otherwise the username and the last
  interaction are replaced and the first sighting and the preferences are kept; the
  display name is kept when none is supplied (\<open>None\<close>) and replaced by the supplied one
  otherwise, whatever it is.  Other rows are untouched.  For a user id that does not fit
  64 bits with sign the call raises \<open>OverflowError\<close> and the table is unchanged.  Without
  a connection, or on a database error, the call returns false and the table is
  unchanged, whatever the user id.
\<close>

theorem C8_add_user:
  fixes us :: users
  shows
   "(sqlite_int uid \<longrightarrow>
        snd (add_user True True ts us uid un dn) = Inr True
      \<and> (map_of us uid = None \<longrightarrow>
            map_of (fst (add_user True True ts us uid un dn)) uid
              = Some \<lparr>telegram_username_col = un, display_name_col = dn, first_seen_col = ts,
                      last_interaction_col = Some ts, preferences_col = None\<rparr>)
      \<and> (map_of us uid = Some old \<longrightarrow>
            map_of (fst (add_user True True ts us uid un dn)) uid
              = Some \<lparr>telegram_username_col = un,
                      display_name_col =
                        (case dn of None \<Rightarrow> display_name_col old | Some d \<Rightarrow> Some d),
                      first_seen_col = first_seen_col old,
                      last_interaction_col = Some ts,
                      preferences_col = preferences_col old\<rparr>)
      \<and> (k \<noteq> uid \<longrightarrow> map_of (fst (add_user True True ts us uid un dn)) k = map_of us k))
  \<and> (\<not> sqlite_int uid \<longrightarrow> add_user True True ts us uid un dn = (us, Inl too_large))
  \<and> add_user False ok ts us uid un dn = (us, Inr False)
  \<and> add_user True False ts us uid un dn = (us, Inr False)"
  by (cases "map_of us uid")
     (auto simp: add_user_def Let_def coalesce_def AList.update_conv' split: option.splits)

text \<open>
  The statement for a table with one user: an update of that user without a display
  name, the insertion of a second user, and a call with the user id \<open>2 ^ 63\<close>.
\<close>

theorem C8_add_user_witness:
  "sqlite_int 1 \<and> sqlite_int 2 \<and> \<not> sqlite_int (2 ^ 63)
   \<and> map_of (fst (add_user True True 9
       [(1, \<lparr>telegram_username_col = Some ''bob'', display_name_col = Some ''Bob'',
              first_seen_col = 1, last_interaction_col = Some 2, preferences_col = None\<rparr>)]
       1 (Some ''bobby'') None)) 1
     = Some \<lparr>telegram_username_col = Some ''bobby'', display_name_col = Some ''Bob'',
             first_seen_col = 1, last_interaction_col = Some 9, preferences_col = None\<rparr>
   \<and> map_of (fst (add_user True True 9
       [(1, \<lparr>telegram_username_col = Some ''bob'', display_name_col = Some ''Bob'',
              first_seen_col = 1, last_interaction_col = Some 2, preferences_col = None\<rparr>)]
       2 (Some ''eve'') (Some ''Eve''))) 2
     = Some \<lparr>telegram_username_col = Some ''eve'', display_name_col = Some ''Eve'',
             first_seen_col = 9, last_interaction_col = Some 9, preferences_col = None\<rparr>
   \<and> map_of (fst (add_user True True 9
       [(1, \<lparr>telegram_username_col = Some ''bob'', display_name_col = Some ''Bob'',
              first_seen_col = 1, last_interaction_col = Some 2, preferences_col = None\<rparr>)]
       2 (Some ''eve'') (Some ''Eve''))) 1
     = Some \<lparr>telegram_username_col = Some ''bob'', display_name_col = Some ''Bob'',
             first_seen_col = 1, last_interaction_col = Some 2, preferences_col = None\<rparr>
   \<and> add_user True True 9
       [(1, \<lparr>telegram_username_col = Some ''bob'', display_name_col = Some ''Bob'',
              first_seen_col = 1, last_interaction_col = Some 2, preferences_col = None\<rparr>)]
       (2 ^ 63) (Some ''eve'') (Some ''Eve'')
     = ([(1, \<lparr>telegram_username_col = Some ''bob'', display_name_col = Some ''Bob'',
              first_seen_col = 1, last_interaction_col = Some 2, preferences_col = None\<rparr>)],
        Inl (OverflowError ''Python int too large to convert to SQLite INTEGER''))"
  using
    C8_add_user [of 1 9 "[(1, \<lparr>telegram_username_col = Some ''bob'', display_name_col = Some ''Bob'',
              first_seen_col = 1, last_interaction_col = Some 2, preferences_col = None\<rparr>)]"
        "Some ''bobby''" None
        "\<lparr>telegram_username_col = Some ''bob'', display_name_col = Some ''Bob'',
              first_seen_col = 1, last_interaction_col = Some 2, preferences_col = None\<rparr>" 2 True]
    C8_add_user [of 2 9 "[(1, \<lparr>telegram_username_col = Some ''bob'', display_name_col = Some ''Bob'',
              first_seen_col = 1, last_interaction_col = Some 2, preferences_col = None\<rparr>)]"
        "Some ''eve''" "Some ''Eve''"
        "\<lparr>telegram_username_col = Some ''bob'', display_name_col = Some ''Bob'',
              first_seen_col = 1, last_interaction_col = Some 2, preferences_col = None\<rparr>" 1 True]
    C8_add_user [of "2 ^ 63" 9 "[(1, \<lparr>telegram_username_col = Some ''bob'', display_name_col = Some ''Bob'',
              first_seen_col = 1, last_interaction_col = Some 2, preferences_col = None\<rparr>)]"
        "Some ''eve''" "Some ''Eve''"
        "\<lparr>telegram_username_col = Some ''bob'', display_name_col = Some ''Bob'',
              first_seen_col = 1, last_interaction_col = Some 2, preferences_col = None\<rparr>" 1 True]
  by (simp add: sqlite_int_def too_large_def)

text \<open>
  Claim C8 as it is written says that an empty string never overwrites a display name.
  \<open>COALESCE\<close> only skips \<open>NULL\<close>: the empty string replaces \<open>Bob\<close>.
\<close>

theorem C8_empty_name_overwrites:
  "map_of (fst (add_user True True 9
       [(1, \<lparr>telegram_username_col = Some ''bob'', display_name_col = Some ''Bob'',
              first_seen_col = 1, last_interaction_col = Some 2, preferences_col = None\<rparr>)]
       1 (Some ''bob'') (Some []))) 1
     = Some \<lparr>telegram_username_col = Some ''bob'', display_name_col = Some [],
             first_seen_col = 1, last_interaction_col = Some 9, preferences_col = None\<rparr>"
  by (simp add: add_user_def coalesce_def sqlite_int_def)

section \<open>Properties of the daily prompt scheduler\<close>

lemmas sched_eval = scan_def prompt_user_def preferred_time_obj_def strptime_HM_def
  is_digit_def digit_val_def time_ge_def get_users_for_daily_prompt_check_def
  daily_prompt_message_def dict_get_def dict_get_default_def get_random_daily_prompt_def

text \<open>
  Claim C6 for the user of the specification: prompts enabled, preferred time 09:00, last
  prompt sent on 2024-05-01, scanned on 2024-05-02.  With db_utils.py as it is, the scan
  ends in \<open>AttributeError\<close>, since the module has no \<open>get_users_for_daily_prompt_check\<close>,
  and sends nothing.  With that one function supplied as the specification describes it,
  the scan at 10:00 sends one prompt, but \<open>update_user_preferences\<close> raises \<open>NameError\<close>
  inside the \<open>try\<close> around the sending, so the table still says 2024-05-01 and the scan
  at 11:00 sends a second prompt on the same day.
\<close>

theorem C6_second_prompt_same_day:
  "(let preferences = [(''daily_prompt_enabled'', JBool True),
                       (''preferred_prompt_time'', JStr ''09:00''),
                       (''last_prompt_sent_date'', JStr ''2024-05-01'')];
        us = [(7, \<lparr>telegram_username_col = Some ''ann'', display_name_col = Some ''Ann'',
                   first_seen_col = 1, last_interaction_col = Some 2,
                   preferences_col = Some (Encodes preferences)\<rparr>)];
        at_10 = \<lparr>banner_mark = mark,
                 names = ''get_users_for_daily_prompt_check'' # db_utils,
                 conn = True, sql_ok = True,
                 daily_prompts = [''What are you grateful for today?''], pick = 0,
                 deliverable = (\<lambda>chat_id. True),
                 now_utc = \<lparr>today_str = ''2024-05-02'', hour = 10, minute = 0\<rparr>,
                 now_ts = 100\<rparr>;
        at_11 = at_10\<lparr>now_utc := \<lparr>today_str = ''2024-05-02'', hour = 11, minute = 0\<rparr>,
                      now_ts := 200\<rparr>;
        prompt = (7, daily_prompt_message mark ''What are you grateful for today?'')
    in scan (at_10\<lparr>names := db_utils\<rparr>) get_users_for_daily_prompt_check us
         = ((us, []), Some (AttributeError ''get_users_for_daily_prompt_check''))
     \<and> scan at_10 get_users_for_daily_prompt_check us = ((us, [prompt]), None)
     \<and> scan at_11 get_users_for_daily_prompt_check
          (fst (fst (scan at_10 get_users_for_daily_prompt_check us)))
         = ((us, [prompt]), None))"
  by (simp add: Let_def sched_eval prefs_eval)

text \<open>
  With the name \<open>json\<close> bound as well, the same two scans do what the claim says: one
  prompt at 10:00, the date of the day stored, nothing at 11:00.
\<close>

lemma scheduler_with_json_bound:
  "(let preferences = [(''daily_prompt_enabled'', JBool True),
                       (''preferred_prompt_time'', JStr ''09:00''),
                       (''last_prompt_sent_date'', JStr ''2024-05-01'')];
        us = [(7, \<lparr>telegram_username_col = Some ''ann'', display_name_col = Some ''Ann'',
                   first_seen_col = 1, last_interaction_col = Some 2,
                   preferences_col = Some (Encodes preferences)\<rparr>)];
        sent_today = [(''daily_prompt_enabled'', JBool True),
                      (''preferred_prompt_time'', JStr ''09:00''),
                      (''last_prompt_sent_date'', JStr ''2024-05-02'')];
        us1 = [(7, \<lparr>telegram_username_col = Some ''ann'', display_name_col = Some ''Ann'',
                   first_seen_col = 1, last_interaction_col = Some 100,
                   preferences_col = Some (Encodes sent_today)\<rparr>)];
        at_10 = \<lparr>banner_mark = mark,
                 names = ''json'' # ''get_users_for_daily_prompt_check'' # db_utils,
                 conn = True, sql_ok = True,
                 daily_prompts = [''What are you grateful for today?''], pick = 0,
                 deliverable = (\<lambda>chat_id. True),
                 now_utc = \<lparr>today_str = ''2024-05-02'', hour = 10, minute = 0\<rparr>,
                 now_ts = 100\<rparr>;
        at_11 = at_10\<lparr>now_utc := \<lparr>today_str = ''2024-05-02'', hour = 11, minute = 0\<rparr>,
                      now_ts := 200\<rparr>;
        prompt = (7, daily_prompt_message mark ''What are you grateful for today?'')
    in scan at_10 get_users_for_daily_prompt_check us = ((us1, [prompt]), None)
     \<and> scan at_11 get_users_for_daily_prompt_check us1 = ((us1, []), None))"
  by (simp add: Let_def sched_eval prefs_eval)

end
